theory Spec2Isabelle
  imports Main "HOL-Library.Monad_Syntax"
begin

section \<open>Values of the interpreter\<close>

text \<open>
  A Python \<open>str\<close> is a sequence of Unicode code points: \<open>len\<close>, slicing and the regular
  expressions of the library all count code points. The sentinel and the markers of the
  program are not ASCII, so a string is a list of code points; \<open>ascii\<close> embeds the
  ASCII literals of the source.
\<close>

type_synonym pystr = "nat list"

definition ord :: "char \<Rightarrow> nat" where
  "ord c = of_char c"

definition ascii :: "string \<Rightarrow> pystr" where
  "ascii s = map ord s"

text \<open>
  The raw issues are decoded JSON: \<open>None\<close>, booleans, numbers, strings, lists and
  dicts with string keys. A dict is kept as the list of its items; \<open>dict.get\<close> reads
  it with \<open>map_of\<close>. JSON numbers are kept as integers: nowhere does the program
  compute with a number, it only tests what kind of value it holds.
\<close>

datatype pyval =
    PNone
  | PBool bool
  | PInt int
  | PStr pystr
  | PList "pyval list"
  | PDict "(pystr \<times> pyval) list"

text \<open>\<open>isinstance(data, dict)\<close> and \<open>data.get(key, default)\<close>.\<close>

definition dict_get :: "(pystr \<times> pyval) list \<Rightarrow> pystr \<Rightarrow> pyval \<Rightarrow> pyval" where
  "dict_get m k d = (case map_of m k of Some v \<Rightarrow> v | None \<Rightarrow> d)"

text \<open>
  Python's \<open>==\<close> on these values: \<open>True == 1\<close> and \<open>False == 0\<close>, lists compare
  element by element, dicts compare as mappings, values of different kinds are unequal.
\<close>

fun py_eq :: "pyval \<Rightarrow> pyval \<Rightarrow> bool" where
  "py_eq PNone PNone = True"
| "py_eq (PBool a) (PBool b) = (a = b)"
| "py_eq (PBool a) (PInt n) = ((if a then 1 else 0) = n)"
| "py_eq (PInt n) (PBool a) = (n = (if a then 1 else 0))"
| "py_eq (PInt a) (PInt b) = (a = b)"
| "py_eq (PStr a) (PStr b) = (a = b)"
| "py_eq (PList []) (PList []) = True"
| "py_eq (PList (x # xs)) (PList (y # ys)) = (py_eq x y \<and> py_eq (PList xs) (PList ys))"
| "py_eq (PDict m) (PDict m') =
     (set (map fst m) = set (map fst m') \<and>
      list_all (\<lambda>(k, v). case map_of m' k of None \<Rightarrow> False | Some v' \<Rightarrow> py_eq v v') m)"
| "py_eq _ _ = False"

text \<open>\<open>keys.split('.')\<close>: splitting at one separator character; never an empty list.\<close>

primrec py_split :: "nat \<Rightarrow> pystr \<Rightarrow> pystr list" where
  "py_split sep [] = [[]]"
| "py_split sep (c # cs) =
     (if c = sep then [] # py_split sep cs
      else (case py_split sep cs of [] \<Rightarrow> [[c]] | w # ws \<Rightarrow> (c # w) # ws))"

section \<open>safe_get\<close>

text \<open>The default of \<open>safe_get\<close>, the sentinel: the six code points of the source's literal.\<close>

definition sentinel :: pystr where
  "sentinel = [23383, 27573, 20869, 23481, 20026, 31354]"

text \<open>\<open>data in [None, ""]\<close>, the test of the last line of \<open>safe_get\<close>.\<close>

definition in_none_or_empty :: "pyval \<Rightarrow> bool" where
  "in_none_or_empty data = (py_eq data PNone \<or> py_eq data (PStr []))"

text \<open>
  The body of \<open>safe_get\<close>: the \<open>for\<close> loop over the keys, with its \<open>return
  default\<close> on a value that is not a dict, its \<open>break\<close> when the value equals the
  default, and the final line after the loop.
\<close>

fun safe_get_loop :: "pyval \<Rightarrow> pystr list \<Rightarrow> pyval \<Rightarrow> pyval" where
  "safe_get_loop data [] dflt = (if in_none_or_empty data then dflt else data)"
| "safe_get_loop data (key # keys) dflt =
     (case data of
        PDict m \<Rightarrow>
          (let data' = dict_get m key dflt in
           if py_eq data' dflt then (if in_none_or_empty data' then dflt else data')
           else safe_get_loop data' keys dflt)
      | _ \<Rightarrow> dflt)"

definition safe_get :: "pyval \<Rightarrow> pystr \<Rightarrow> pyval \<Rightarrow> pyval" where
  "safe_get data keys dflt = safe_get_loop data (py_split (ord CHR ''.'') keys) dflt"

text \<open>
  The contract of the specification, in its words: descend the path key by key; a step
  fails when the current value is not a mapping or the key is absent.
\<close>

fun descend :: "pyval \<Rightarrow> pystr list \<Rightarrow> pyval option" where
  "descend data [] = Some data"
| "descend data (key # keys) =
     (case data of
        PDict m \<Rightarrow> (case map_of m key of None \<Rightarrow> None | Some v \<Rightarrow> descend v keys)
      | _ \<Rightarrow> None)"


section \<open>convert_time\<close>

subsection \<open>The library's parser for the format of the source\<close>

text \<open>
  \<open>datetime.strptime\<close> and \<open>strftime\<close> belong to the standard library. For the one
  format string of the source, \<open>%Y-%m-%dT%H:%M:%S.%f%z\<close>, the library (CPython 3.11,
  module \<open>_strptime\<close>) compiles the regular expression

  \<^verbatim>\<open>(?P<Y>\d\d\d\d)-(?P<m>1[0-2]|0[1-9]|[1-9])-(?P<d>3[0-1]|[1-2]\d|0[1-9]|[1-9]| [1-9])T\<close>
  \<^verbatim>\<open>(?P<H>2[0-3]|[0-1]\d|\d):(?P<M>[0-5]\d|\d):(?P<S>6[0-1]|[0-5]\d|\d)\.(?P<f>[0-9]{1,6})\<close>
  \<^verbatim>\<open>(?P<z>[+-]\d\d:?[0-5]\d(:?[0-5]\d(\.\d{1,6})?)?|(?-i:Z))\<close>

  with the flag \<open>IGNORECASE\<close>, matches it at the start of the string, refuses text left
  over, converts the groups with \<open>int\<close> and builds the \<open>datetime\<close>, whose constructor
  checks the ranges. Every failure is a \<open>ValueError\<close>.

  A regular expression is modelled by its backtracking matcher: the list of the
  remainders it can leave, in the order the library tries them.
\<close>

text \<open>
  \<open>\d\<close> on a \<open>str\<close> pattern is any Unicode decimal digit, and \<open>int\<close> reads them:
  the digits come in runs of ten code points from a zero (the table of Unicode 14.0).
\<close>

definition decimal_zeros :: "nat list" where
  "decimal_zeros =
     [48, 1632, 1776, 1984, 2406, 2534, 2662, 2790, 2918, 3046, 3174, 3302, 3430, 3558,
      3664, 3792, 3872, 4160, 4240, 6112, 6160, 6470, 6608, 6784, 6800, 6992, 7088, 7232,
      7248, 42528, 43216, 43264, 43472, 43504, 43600, 44016, 65296, 66720, 68912, 69734,
      69872, 69942, 70096, 70384, 70736, 70864, 71248, 71360, 71472, 71904, 72016, 72784,
      73040, 73120, 92768, 92864, 93008, 120782, 120792, 120802, 120812, 120822, 123200,
      123632, 125264, 130032]"

definition decimal :: "nat \<Rightarrow> nat option" where
  "decimal c =
     (case filter (\<lambda>z. z \<le> c \<and> c < z + 10) decimal_zeros of
        [] \<Rightarrow> None
      | z # _ \<Rightarrow> Some (c - z))"

text \<open>
  \<open>int(text)\<close> on the texts the parser converts: blanks before the digits are skipped
  (the day may be written with one), then every character must be a decimal digit, and
  there must be one; anything else is a \<open>ValueError\<close>.
\<close>

fun digits_value :: "nat \<Rightarrow> pystr \<Rightarrow> nat option" where
  "digits_value acc [] = Some acc"
| "digits_value acc (c # cs) =
     (case decimal c of None \<Rightarrow> None | Some v \<Rightarrow> digits_value (10 * acc + v) cs)"

definition py_int :: "pystr \<Rightarrow> nat option" where
  "py_int s =
     (let t = dropWhile (\<lambda>c. c = ord CHR '' '') s
      in if t = [] then None else digits_value 0 t)"

type_synonym regex = "pystr \<Rightarrow> pystr list"

definition rx_char :: "(nat \<Rightarrow> bool) \<Rightarrow> regex" where
  "rx_char P s = (case s of [] \<Rightarrow> [] | c # r \<Rightarrow> if P c then [r] else [])"

definition rx_lit :: "char \<Rightarrow> regex" where
  "rx_lit a = rx_char (\<lambda>c. c = ord a)"

definition rx_range :: "char \<Rightarrow> char \<Rightarrow> regex" where
  "rx_range a b = rx_char (\<lambda>c. ord a \<le> c \<and> c \<le> ord b)"

definition rx_digit :: regex where
  "rx_digit = rx_char (\<lambda>c. decimal c \<noteq> None)"

definition rx_seq :: "regex \<Rightarrow> regex \<Rightarrow> regex" where
  "rx_seq a b s = concat (map b (a s))"

definition rx_alt :: "regex \<Rightarrow> regex \<Rightarrow> regex" where
  "rx_alt a b s = a s @ b s"

definition rx_opt :: "regex \<Rightarrow> regex" where
  "rx_opt a s = a s @ [s]"

primrec rx_upto :: "nat \<Rightarrow> regex \<Rightarrow> regex" where
  "rx_upto 0 a = (\<lambda>s. [s])"
| "rx_upto (Suc n) a = rx_opt (rx_seq a (rx_upto n a))"

definition rx_seqs :: "regex list \<Rightarrow> regex" where
  "rx_seqs rs = foldr rx_seq rs (\<lambda>s. [s])"

definition rx_alts :: "regex list \<Rightarrow> regex" where
  "rx_alts rs = foldr rx_alt rs (\<lambda>s. [])"

text \<open>A named group: the text it matched, with the remainder.\<close>

definition rx_group :: "regex \<Rightarrow> pystr \<Rightarrow> (pystr \<times> pystr) list" where
  "rx_group a s = map (\<lambda>r. (take (length s - length r) s, r)) (a s)"

definition re_Y :: regex where
  "re_Y = rx_seqs [rx_digit, rx_digit, rx_digit, rx_digit]"

definition re_m :: regex where
  "re_m = rx_alts [rx_seq (rx_lit CHR ''1'') (rx_range CHR ''0'' CHR ''2''),
                   rx_seq (rx_lit CHR ''0'') (rx_range CHR ''1'' CHR ''9''),
                   rx_range CHR ''1'' CHR ''9'']"

definition re_d :: regex where
  "re_d = rx_alts [rx_seq (rx_lit CHR ''3'') (rx_range CHR ''0'' CHR ''1''),
                   rx_seq (rx_range CHR ''1'' CHR ''2'') rx_digit,
                   rx_seq (rx_lit CHR ''0'') (rx_range CHR ''1'' CHR ''9''),
                   rx_range CHR ''1'' CHR ''9'',
                   rx_seq (rx_lit CHR '' '') (rx_range CHR ''1'' CHR ''9'')]"

definition re_H :: regex where
  "re_H = rx_alts [rx_seq (rx_lit CHR ''2'') (rx_range CHR ''0'' CHR ''3''),
                   rx_seq (rx_range CHR ''0'' CHR ''1'') rx_digit,
                   rx_digit]"

definition re_M :: regex where
  "re_M = rx_alts [rx_seq (rx_range CHR ''0'' CHR ''5'') rx_digit, rx_digit]"

definition re_S :: regex where
  "re_S = rx_alts [rx_seq (rx_lit CHR ''6'') (rx_range CHR ''0'' CHR ''1''),
                   rx_seq (rx_range CHR ''0'' CHR ''5'') rx_digit,
                   rx_digit]"

definition re_f :: regex where
  "re_f = rx_seq (rx_range CHR ''0'' CHR ''9'') (rx_upto 5 (rx_range CHR ''0'' CHR ''9''))"

definition re_z :: regex where
  "re_z = rx_alts
     [rx_seqs [rx_alt (rx_lit CHR ''+'') (rx_lit CHR ''-''), rx_digit, rx_digit,
               rx_opt (rx_lit CHR '':''), rx_range CHR ''0'' CHR ''5'', rx_digit,
               rx_opt (rx_seqs [rx_opt (rx_lit CHR '':''), rx_range CHR ''0'' CHR ''5'', rx_digit,
                                rx_opt (rx_seqs [rx_lit CHR ''.'', rx_digit, rx_upto 5 rx_digit])])],
      rx_lit CHR ''Z'']"

text \<open>The literal \<open>T\<close> of the format, matched without regard to case.\<close>

definition re_T :: regex where
  "re_T = rx_alt (rx_lit CHR ''T'') (rx_lit CHR ''t'')"

record found_dict =
  g_Y :: pystr
  g_m :: pystr
  g_d :: pystr
  g_H :: pystr
  g_M :: pystr
  g_S :: pystr
  g_f :: pystr
  g_z :: pystr

text \<open>
  \<open>format_regex.match(data_string)\<close>: the matches of the whole expression in the
  library's order, each with the text it leaves unread. The library takes the first.
\<close>

definition format_regex_match :: "pystr \<Rightarrow> (found_dict \<times> pystr) list" where
  "format_regex_match s0 =
     List.bind (rx_group re_Y s0) (\<lambda>(Y, s1).
     List.bind (rx_lit CHR ''-'' s1) (\<lambda>s2.
     List.bind (rx_group re_m s2) (\<lambda>(m, s3).
     List.bind (rx_lit CHR ''-'' s3) (\<lambda>s4.
     List.bind (rx_group re_d s4) (\<lambda>(d, s5).
     List.bind (re_T s5) (\<lambda>s6.
     List.bind (rx_group re_H s6) (\<lambda>(H, s7).
     List.bind (rx_lit CHR '':'' s7) (\<lambda>s8.
     List.bind (rx_group re_M s8) (\<lambda>(M, s9).
     List.bind (rx_lit CHR '':'' s9) (\<lambda>s10.
     List.bind (rx_group re_S s10) (\<lambda>(S, s11).
     List.bind (rx_lit CHR ''.'' s11) (\<lambda>s12.
     List.bind (rx_group re_f s12) (\<lambda>(f, s13).
     List.bind (rx_group re_z s13) (\<lambda>(z, s14).
       [(\<lparr>g_Y = Y, g_m = m, g_d = d, g_H = H, g_M = M, g_S = S, g_f = f, g_z = z\<rparr>,
         s14)]))))))))))))))"

text \<open>
  The offset group \<open>z\<close>, as the library reads it: \<open>Z\<close> is offset zero; otherwise a
  colon after the hours is removed, and then one before the seconds must be there too;
  hours, minutes, seconds and fraction are cut out by position and converted. The
  result is in microseconds; \<open>None\<close> is the library's \<open>ValueError\<close>.
\<close>

definition zero_pad :: "pystr \<Rightarrow> pystr" where
  "zero_pad s = s @ replicate (6 - length s) (ord CHR ''0'')"

definition strip_colons :: "pystr \<Rightarrow> pystr option" where
  "strip_colons z0 =
     (if take 1 (drop 3 z0) = [ord CHR '':''] then
        (let z = take 3 z0 @ drop 4 z0 in
         if length z > 5 then
           (if take 1 (drop 5 z) \<noteq> [ord CHR '':''] then None
            else Some (take 5 z @ drop 6 z))
         else Some z)
      else Some z0)"

definition gmtoff :: "pystr \<Rightarrow> int option" where
  "gmtoff z0 =
     (if z0 = [ord CHR ''Z''] then Some 0
      else do {
        z \<leftarrow> strip_colons z0;
        hours \<leftarrow> py_int (take 2 (drop 1 z));
        minutes \<leftarrow> py_int (take 2 (drop 3 z));
        seconds \<leftarrow> (if take 2 (drop 5 z) = [] then Some 0 else py_int (take 2 (drop 5 z)));
        fraction \<leftarrow> py_int (zero_pad (drop 8 z));
        Some ((if take 1 z = [ord CHR ''-''] then - 1 else 1) *
              (int (hours * 3600 + minutes * 60 + seconds) * 1000000 + int fraction))
      })"

record datetime =
  year :: nat
  month :: nat
  day :: nat
  hour :: nat
  minute :: nat
  second :: nat
  microsecond :: nat
  utcoffset :: int

definition is_leap :: "nat \<Rightarrow> bool" where
  "is_leap y = (y mod 4 = 0 \<and> (y mod 100 \<noteq> 0 \<or> y mod 400 = 0))"

definition days_in_month :: "nat \<Rightarrow> nat \<Rightarrow> nat" where
  "days_in_month y m =
     (if m = 2 then (if is_leap y then 29 else 28)
      else if m = 4 \<or> m = 6 \<or> m = 9 \<or> m = 11 then 30 else 31)"

text \<open>
  The checks of the constructors \<open>datetime\<close> and \<open>timezone\<close>: the year from 1 to 9999,
  the day within its month, no leap second, the offset strictly within a day.
\<close>

definition make_datetime ::
  "nat \<Rightarrow> nat \<Rightarrow> nat \<Rightarrow> nat \<Rightarrow> nat \<Rightarrow> nat \<Rightarrow> nat \<Rightarrow> int \<Rightarrow> datetime option" where
  "make_datetime y mo d h mi s us off =
     (if 1 \<le> y \<and> y \<le> 9999 \<and> 1 \<le> mo \<and> mo \<le> 12 \<and> 1 \<le> d \<and> d \<le> days_in_month y mo
         \<and> h \<le> 23 \<and> mi \<le> 59 \<and> s \<le> 59 \<and> us \<le> 999999
         \<and> - 86400000000 < off \<and> off < 86400000000
      then Some \<lparr>year = y, month = mo, day = d, hour = h, minute = mi, second = s,
                  microsecond = us, utcoffset = off\<rparr>
      else None)"

definition strptime :: "pystr \<Rightarrow> datetime option" where
  "strptime data_string =
     (case format_regex_match data_string of
        [] \<Rightarrow> None
      | (found, unconverted) # _ \<Rightarrow>
          if unconverted \<noteq> [] then None
          else do {
            y \<leftarrow> py_int (g_Y found);
            mo \<leftarrow> py_int (g_m found);
            d \<leftarrow> py_int (g_d found);
            h \<leftarrow> py_int (g_H found);
            mi \<leftarrow> py_int (g_M found);
            s \<leftarrow> py_int (g_S found);
            us \<leftarrow> py_int (zero_pad (g_f found));
            off \<leftarrow> gmtoff (g_z found);
            make_datetime y mo d h mi s us off
          })"

subsection \<open>The library's formatter\<close>

text \<open>
  \<open>dt.strftime("%Y-%m-%d %H:%M:%S")\<close>: the library hands the format to the C library
  of the platform. Month, day, hour, minute and second are written in two digits, zero
  padded. The year is written in decimal without padding (glibc): a year from 1000 on has
  four digits, a year below 1000 has three, two or one. The years of a \<open>datetime\<close> run
  from 1 to 9999. The offset and the microseconds have no directive in this format.
\<close>

definition digit :: "nat \<Rightarrow> nat" where
  "digit n = ord CHR ''0'' + n mod 10"

definition two_digits :: "nat \<Rightarrow> pystr" where
  "two_digits n = [digit (n div 10), digit n]"

definition year_digits :: "nat \<Rightarrow> pystr" where
  "year_digits y =
     (if y < 10 then [digit y]
      else if y < 100 then [digit (y div 10), digit y]
      else if y < 1000 then [digit (y div 100), digit (y div 10), digit y]
      else [digit (y div 1000), digit (y div 100), digit (y div 10), digit y])"

definition strftime :: "datetime \<Rightarrow> pystr" where
  "strftime dt =
     year_digits (year dt) @ ascii ''-'' @ two_digits (month dt) @ ascii ''-'' @
     two_digits (day dt) @ ascii '' '' @ two_digits (hour dt) @ ascii '':'' @
     two_digits (minute dt) @ ascii '':'' @ two_digits (second dt)"

subsection \<open>convert_time\<close>

datatype pyerr = TypeError | ValueError | AttributeError | TransportError

text \<open>
  The body of the \<open>try\<close>: \<open>strptime\<close> raises \<open>TypeError\<close> on an argument that is not
  a \<open>str\<close> and \<open>ValueError\<close> on one it cannot parse. The bare \<open>except\<close> turns every
  exception into the argument itself.
\<close>

definition convert_time_try :: "pyval \<Rightarrow> pyerr + pyval" where
  "convert_time_try jira_time =
     (case jira_time of
        PStr s \<Rightarrow> (case strptime s of
                     None \<Rightarrow> Inl ValueError
                   | Some dt \<Rightarrow> Inr (PStr (strftime dt)))
      | _ \<Rightarrow> Inl TypeError)"

definition convert_time :: "pyval \<Rightarrow> pyval" where
  "convert_time jira_time =
     (case convert_time_try jira_time of Inr r \<Rightarrow> r | Inl e \<Rightarrow> jira_time)"

section \<open>process_issues\<close>

record canonical_comment =
  c_body :: pyval
  c_author :: pyval
  c_created :: pyval

text \<open>
  The dict that \<open>process_issues\<close> appends for one issue: the keys of \<open>base\<close> and
  \<open>comment_data\<close>.
\<close>

record canonical_issue =
  i_key :: pyval
  i_type :: pyval
  i_Summary :: pyval
  i_created :: pyval
  i_status :: pyval
  i_resolution :: pyval
  i_environment :: pyval
  i_description :: pyval
  i_comments :: pyval
  i_created_year :: pyval
  i_created_month :: pyval
  i_comment_data :: "canonical_comment list"

text \<open>
  \<open>x[a:b]\<close> with \<open>0 \<le> a \<le> b\<close>: a \<open>str\<close> and a list are cut, out of range
  positions are dropped; slicing any other value raises (\<open>TypeError\<close>; on a dict
  \<open>KeyError\<close> from Python 3.12 on, which the same \<open>except\<close> catches).
\<close>

definition py_slice :: "nat \<Rightarrow> nat \<Rightarrow> pyval \<Rightarrow> pyerr + pyval" where
  "py_slice a b v =
     (case v of
        PStr s \<Rightarrow> Inr (PStr (take (b - a) (drop a s)))
      | PList xs \<Rightarrow> Inr (PList (take (b - a) (drop a xs)))
      | _ \<Rightarrow> Inl TypeError)"

text \<open>The truth value of a value, as \<open>if\<close> and \<open>and\<close> take it.\<close>

fun py_truthy :: "pyval \<Rightarrow> bool" where
  "py_truthy PNone = False"
| "py_truthy (PBool b) = b"
| "py_truthy (PInt n) = (n \<noteq> 0)"
| "py_truthy (PStr s) = (s \<noteq> [])"
| "py_truthy (PList xs) = (xs \<noteq> [])"
| "py_truthy (PDict m) = (m \<noteq> [])"

definition comment_data_of :: "pyval \<Rightarrow> canonical_comment" where
  "comment_data_of comment =
     \<lparr>c_body = safe_get comment (ascii ''body'') (PStr sentinel),
      c_author = safe_get comment (ascii ''author.displayName'') (PStr sentinel),
      c_created = convert_time (safe_get comment (ascii ''created'') (PStr sentinel))\<rparr>"

text \<open>
  The loop over \<open>base['comments']\<close>, entered when that value is true and a list.
\<close>

definition comment_list_of :: "pyval \<Rightarrow> canonical_comment list" where
  "comment_list_of comments =
     (case comments of
        PList cs \<Rightarrow> if py_truthy comments then map comment_data_of cs else []
      | _ \<Rightarrow> [])"

text \<open>
  The body of the \<open>try\<close> for one issue. \<open>issue.get\<close> raises \<open>AttributeError\<close> when
  the issue is not a dict; the two slices of \<open>created\<close> raise \<open>TypeError\<close> when it is
  neither the sentinel, a string nor a list.
\<close>

definition normalize_issue :: "pyval \<Rightarrow> pyerr + canonical_issue" where
  "normalize_issue issue =
     (case issue of
        PDict m \<Rightarrow>
          (let fields = dict_get m (ascii ''fields'') (PDict []);
               created = convert_time (safe_get fields (ascii ''created'') (PStr sentinel));
               base = \<lparr>i_key = safe_get issue (ascii ''key'') (PStr sentinel),
                       i_type = safe_get fields (ascii ''issuetype.name'') (PStr sentinel),
                       i_Summary = safe_get fields (ascii ''summary'') (PStr sentinel),
                       i_created = created,
                       i_status = safe_get fields (ascii ''status.name'') (PStr sentinel),
                       i_resolution = safe_get fields (ascii ''resolution.name'') (PStr sentinel),
                       i_environment = safe_get fields (ascii ''environment'') (PStr sentinel),
                       i_description = safe_get fields (ascii ''description'') (PStr sentinel),
                       i_comments = safe_get fields (ascii ''comment.comments'') (PList []),
                       i_created_year = PNone,
                       i_created_month = PNone,
                       i_comment_data = []\<rparr>
           in if \<not> py_eq created (PStr sentinel) then
                (case py_slice 0 4 created of
                   Inl e \<Rightarrow> Inl e
                 | Inr y \<Rightarrow>
                     (case py_slice 5 7 created of
                        Inl e \<Rightarrow> Inl e
                      | Inr mo \<Rightarrow>
                          Inr (base\<lparr>i_created_year := y, i_created_month := mo,
                                     i_comment_data := comment_list_of (i_comments base)\<rparr>)))
              else
                Inr (base\<lparr>i_created_year := PStr sentinel, i_created_month := PStr sentinel,
                           i_comment_data := comment_list_of (i_comments base)\<rparr>))
      | _ \<Rightarrow> Inl AttributeError)"

text \<open>
  The \<open>for\<close> loop of \<open>process_issues\<close> with its \<open>try\<close>: a record is appended to
  \<open>processed\<close>, or the exception is printed and the loop continues. The state is the
  list built so far and the messages printed so far.
\<close>

fun process_issues_loop ::
  "pyval list \<Rightarrow> canonical_issue list \<Rightarrow> pyerr list \<Rightarrow> canonical_issue list \<times> pyerr list" where
  "process_issues_loop [] processed printed = (processed, printed)"
| "process_issues_loop (issue # issues) processed printed =
     (case normalize_issue issue of
        Inr r \<Rightarrow> process_issues_loop issues (processed @ [r]) printed
      | Inl e \<Rightarrow> process_issues_loop issues processed (printed @ [e]))"

definition process_issues :: "pyval list \<Rightarrow> canonical_issue list" where
  "process_issues issues = fst (process_issues_loop issues [] [])"

definition process_issues_printed :: "pyval list \<Rightarrow> pyerr list" where
  "process_issues_printed issues = snd (process_issues_loop issues [] [])"

section \<open>format_dataframe\<close>

text \<open>The marker of an issue without comments: the source's literal, 14 code points.\<close>

definition no_comment_marker :: pystr where
  "no_comment_marker = [35813] @ ascii ''issue'' @ [26080] @ ascii ''comment''"

record export_row =
  r_key :: pyval
  r_type :: pyval
  r_Summary :: pyval
  r_created :: pyval
  r_created_year :: pyval
  r_created_month :: pyval
  r_status :: pyval
  r_resolution :: pyval
  r_environment :: pyval
  r_description :: pyval
  r_comment :: pyval
  r_comment_author :: pyval
  r_comment_created_time :: pyval

text \<open>\<open>base_row.copy()\<close> updated with the three comment fields.\<close>

definition row_of :: "canonical_issue \<Rightarrow> pyval \<Rightarrow> pyval \<Rightarrow> pyval \<Rightarrow> export_row" where
  "row_of item comment author created_time =
     \<lparr>r_key = i_key item, r_type = i_type item, r_Summary = i_Summary item,
      r_created = i_created item, r_created_year = i_created_year item,
      r_created_month = i_created_month item, r_status = i_status item,
      r_resolution = i_resolution item, r_environment = i_environment item,
      r_description = i_description item,
      r_comment = comment, r_comment_author = author,
      r_comment_created_time = created_time\<rparr>"

text \<open>The inner loop: one row appended for each comment.\<close>

fun comment_rows_loop ::
  "canonical_issue \<Rightarrow> canonical_comment list \<Rightarrow> export_row list \<Rightarrow> export_row list" where
  "comment_rows_loop item [] formatted = formatted"
| "comment_rows_loop item (comment # comments) formatted =
     comment_rows_loop item comments
       (formatted @ [row_of item (c_body comment) (c_author comment) (c_created comment)])"

text \<open>The outer loop over the issues.\<close>

fun format_dataframe_loop :: "canonical_issue list \<Rightarrow> export_row list \<Rightarrow> export_row list" where
  "format_dataframe_loop [] formatted = formatted"
| "format_dataframe_loop (item # data) formatted =
     format_dataframe_loop data
       (if i_comment_data item = [] then
          formatted @ [row_of item (PStr no_comment_marker) (PStr []) (PStr [])]
        else comment_rows_loop item (i_comment_data item) formatted)"

text \<open>The rows of the data frame that \<open>format_dataframe\<close> returns.\<close>

definition format_dataframe :: "canonical_issue list \<Rightarrow> export_row list" where
  "format_dataframe data = format_dataframe_loop data []"

section \<open>The fetch loops\<close>

text \<open>
  What leaves a function: a value, or the process ended by \<open>sys.exit\<close>. A loop that
  never ends gives neither: the loops are partial functions with \<open>None\<close> for a run
  without end.
\<close>

datatype 'a outcome = Exit int | Returns 'a

datatype 'a loop_result = Raised pyerr | Exited int | Done 'a

subsection \<open>fetch_via_library\<close>

text \<open>
  The client library: \<open>JIRA(...)\<close> connects or raises; \<open>search_issues\<close> returns
  \<open>Issue\<close> objects, of which the program reads \<open>raw\<close>, or raises. What a call returns
  may depend on the calls before it, so a client is a function of the number of the
  call, \<open>startAt\<close> and \<open>maxResults\<close>.
\<close>

datatype issue_obj = Issue (raw: pyval)

datatype search_result = SearchRaises | SearchReturns "issue_obj list"

type_synonym jira_client = "nat \<Rightarrow> nat \<Rightarrow> nat \<Rightarrow> search_result"

datatype jira_session = ConnectRaises | Connected jira_client

partial_function (option) library_loop ::
  "jira_client \<Rightarrow> nat \<Rightarrow> nat \<Rightarrow> nat \<Rightarrow> issue_obj list \<Rightarrow> issue_obj list loop_result option" where
  "library_loop search block_size call start_at all_issues =
     (case search call start_at block_size of
        SearchRaises \<Rightarrow> Some (Raised TransportError)
      | SearchReturns issues \<Rightarrow>
          if length issues < block_size then Some (Done (all_issues @ issues))
          else library_loop search block_size (Suc call) (start_at + length issues)
                 (all_issues @ issues))"

text \<open>
  \<open>fetch_via_library\<close> with the page size as a parameter; the source fixes it at 100.
  Every exception ends in \<open>sys.exit(1)\<close>.
\<close>

definition fetch_via_library_sized :: "nat \<Rightarrow> jira_session \<Rightarrow> pyval list outcome option" where
  "fetch_via_library_sized block_size session =
     (case session of
        ConnectRaises \<Rightarrow> Some (Exit 1)
      | Connected search \<Rightarrow>
          (case library_loop search block_size 0 0 [] of
             None \<Rightarrow> None
           | Some (Raised e) \<Rightarrow> Some (Exit 1)
           | Some (Exited c) \<Rightarrow> Some (Exit c)
           | Some (Done all_issues) \<Rightarrow> Some (Returns (map raw all_issues))))"

definition fetch_via_library :: "jira_session \<Rightarrow> pyval list outcome option" where
  "fetch_via_library session = fetch_via_library_sized 100 session"

subsection \<open>fetch_via_api\<close>

text \<open>
  \<open>requests.get\<close> raises or returns a response with a status code and a body;
  \<open>response.json()\<close> raises when the body is not JSON (\<open>None\<close> here).
\<close>

datatype http_response = RequestRaises | Response int "pyval option"

type_synonym api_server = "nat \<Rightarrow> nat \<Rightarrow> nat \<Rightarrow> http_response"

text \<open>
  \<open>all_issues.extend(issues)\<close> and \<open>len(issues)\<close>: the elements of a list, the
  characters of a string, the keys of a dict; other values raise \<open>TypeError\<close>.
\<close>

definition py_iter :: "pyval \<Rightarrow> pyerr + pyval list" where
  "py_iter v =
     (case v of
        PList xs \<Rightarrow> Inr xs
      | PStr s \<Rightarrow> Inr (map (\<lambda>c. PStr [c]) s)
      | PDict m \<Rightarrow> Inr (map (\<lambda>kv. PStr (fst kv)) m)
      | _ \<Rightarrow> Inl TypeError)"

text \<open>\<open>start_at >= total\<close>: defined against a number, \<open>TypeError\<close> otherwise.\<close>

definition py_ge :: "nat \<Rightarrow> pyval \<Rightarrow> pyerr + bool" where
  "py_ge n v =
     (case v of
        PInt t \<Rightarrow> Inr (int n \<ge> t)
      | PBool b \<Rightarrow> Inr (int n \<ge> (if b then 1 else 0))
      | _ \<Rightarrow> Inl TypeError)"

partial_function (option) api_loop ::
  "api_server \<Rightarrow> nat \<Rightarrow> nat \<Rightarrow> nat \<Rightarrow> pyval list \<Rightarrow> pyval list loop_result option" where
  "api_loop get max_results call start_at all_issues =
     (case get call start_at max_results of
        RequestRaises \<Rightarrow> Some (Raised TransportError)
      | Response status_code body \<Rightarrow>
          if status_code \<noteq> 200 then Some (Exited 1)
          else
            (case body of
               None \<Rightarrow> Some (Raised ValueError)
             | Some (PDict data) \<Rightarrow>
                 (case py_iter (dict_get data (ascii ''issues'') (PList [])) of
                    Inl e \<Rightarrow> Some (Raised e)
                  | Inr issues \<Rightarrow>
                      (case py_ge (start_at + length issues)
                              (dict_get data (ascii ''total'') (PInt 0)) of
                         Inl e \<Rightarrow> Some (Raised e)
                       | Inr stop \<Rightarrow>
                           if stop then Some (Done (all_issues @ issues))
                           else api_loop get max_results (Suc call)
                                  (start_at + length issues) (all_issues @ issues)))
             | Some _ \<Rightarrow> Some (Raised AttributeError)))"

definition fetch_via_api_sized :: "nat \<Rightarrow> api_server \<Rightarrow> pyval list outcome option" where
  "fetch_via_api_sized max_results get =
     (case api_loop get max_results 0 0 [] of
        None \<Rightarrow> None
      | Some (Raised e) \<Rightarrow> Some (Exit 1)
      | Some (Exited c) \<Rightarrow> Some (Exit c)
      | Some (Done all_issues) \<Rightarrow> Some (Returns all_issues))"

definition fetch_via_api :: "api_server \<Rightarrow> pyval list outcome option" where
  "fetch_via_api get = fetch_via_api_sized 100 get"

subsection \<open>A source that holds a list of records\<close>

text \<open>
  The simulated source of the specification's tests: it holds the records of the query
  result and serves the page asked for; the REST server reports their number as the
  total.
\<close>

definition simulated_client :: "pyval list \<Rightarrow> jira_client" where
  "simulated_client records =
     (\<lambda>call start_at max_results.
        SearchReturns (map Issue (take max_results (drop start_at records))))"

definition simulated_server :: "pyval list \<Rightarrow> api_server" where
  "simulated_server records =
     (\<lambda>call start_at max_results.
        Response 200
          (Some (PDict [(ascii ''issues'', PList (take max_results (drop start_at records))),
                        (ascii ''total'', PInt (int (length records)))])))"

section \<open>main\<close>

datatype fetch_method = LibraryA | RestB

text \<open>
  The two counts of the final summary, in the order the source prints them: the first
  is \<open>len(issues)\<close>, the second \<open>len(processed_data)\<close>.
\<close>

record summary =
  issue_count :: nat
  row_count :: nat

text \<open>
  \<open>main\<close> after the prompts: fetch, normalize, hand the records to the exporters,
  print the summary. \<open>sys.exit\<close> in the fetch ends the run there. The exporters are
  outside of the model; a failure of one is caught and printed.
\<close>

definition main :: "fetch_method \<Rightarrow> jira_session \<Rightarrow> api_server \<Rightarrow> summary outcome option" where
  "main fetch_method session get =
     (case (case fetch_method of
              LibraryA \<Rightarrow> fetch_via_library session
            | RestB \<Rightarrow> fetch_via_api get) of
        None \<Rightarrow> None
      | Some (Exit c) \<Rightarrow> Some (Exit c)
      | Some (Returns issues) \<Rightarrow>
          (let processed_data = process_issues issues
           in Some (Returns \<lparr>issue_count = length issues,
                               row_count = length processed_data\<rparr>)))"

section \<open>The rules of the specification, and example records\<close>

text \<open>
  The row rule of the specification: an issue gives one row per comment, in the order of
  its comments, and one placeholder row when it has none; every row carries the scalar
  fields of its issue.
\<close>

definition issue_rows :: "canonical_issue \<Rightarrow> export_row list" where
  "issue_rows item =
     (if i_comment_data item = [] then
        [row_of item (PStr no_comment_marker) (PStr []) (PStr [])]
      else map (\<lambda>c. row_of item (c_body c) (c_author c) (c_created c)) (i_comment_data item))"

text \<open>A canonical issue with \<open>n\<close> comments, numbered in order.\<close>

definition example_comment :: "nat \<Rightarrow> canonical_comment" where
  "example_comment k =
     \<lparr>c_body = PInt (int k), c_author = PStr (ascii ''ann''), c_created = PStr sentinel\<rparr>"

definition example_issue :: "nat \<Rightarrow> canonical_issue" where
  "example_issue n =
     \<lparr>i_key = PStr (ascii ''K-1''), i_type = PStr (ascii ''Bug''),
      i_Summary = PStr (ascii ''s''), i_created = PStr sentinel,
      i_status = PStr (ascii ''Open''), i_resolution = PStr sentinel,
      i_environment = PStr sentinel, i_description = PStr sentinel,
      i_comments = PList [], i_created_year = PStr sentinel,
      i_created_month = PStr sentinel,
      i_comment_data = map example_comment [0..<n]\<rparr>"

text \<open>Raw issues: one with a key only, one with a key and a list of comments.\<close>

definition bare_issue :: "pyval \<Rightarrow> pyval" where
  "bare_issue k = PDict [(ascii ''key'', k)]"

definition commented_issue :: "pyval \<Rightarrow> pyval list \<Rightarrow> pyval" where
  "commented_issue k cs =
     PDict [(ascii ''key'', k),
            (ascii ''fields'',
             PDict [(ascii ''comment'', PDict [(ascii ''comments'', PList cs)])])]"

text \<open>
  The isolation rule of the specification: an issue contributes its record, or, when its
  normalization raises, nothing but the report of the exception.
\<close>

definition normalized :: "pyval \<Rightarrow> canonical_issue list" where
  "normalized issue = (case normalize_issue issue of Inr r \<Rightarrow> [r] | Inl e \<Rightarrow> [])"

definition reported :: "pyval \<Rightarrow> pyerr list" where
  "reported issue = (case normalize_issue issue of Inr r \<Rightarrow> [] | Inl e \<Rightarrow> [e])"

text \<open>A field that holds real data or the sentinel: neither \<open>None\<close> nor the empty string.\<close>

definition filled :: "pyval \<Rightarrow> bool" where
  "filled v = (v \<noteq> PNone \<and> v \<noteq> PStr [])"

definition issue_filled :: "canonical_issue \<Rightarrow> bool" where
  "issue_filled r =
     (filled (i_key r) \<and> filled (i_type r) \<and> filled (i_Summary r) \<and> filled (i_created r)
      \<and> filled (i_created_year r) \<and> filled (i_status r) \<and> filled (i_resolution r)
      \<and> filled (i_environment r) \<and> filled (i_description r) \<and> filled (i_comments r)
      \<and> list_all (\<lambda>c. filled (c_body c) \<and> filled (c_author c) \<and> filled (c_created c))
           (i_comment_data r))"

text \<open>
  An export row: its scalar fields and its comment are filled; its comment author and
  time are filled too, or the row is the placeholder of an issue without comments, with
  the marker as comment and the empty string in both.
\<close>

definition row_filled :: "export_row \<Rightarrow> bool" where
  "row_filled row =
     (filled (r_key row) \<and> filled (r_type row) \<and> filled (r_Summary row)
      \<and> filled (r_created row) \<and> filled (r_created_year row) \<and> filled (r_status row)
      \<and> filled (r_resolution row) \<and> filled (r_environment row)
      \<and> filled (r_description row) \<and> filled (r_comment row)
      \<and> (filled (r_comment_author row) \<and> filled (r_comment_created_time row)
          \<or> r_comment row = PStr no_comment_marker \<and> r_comment_author row = PStr []
            \<and> r_comment_created_time row = PStr []))"

text \<open>
  The canonical form \<open>YYYY-MM-DD HH:MM:SS\<close>: a text has it when, with every ASCII digit
  replaced by \<open>9\<close>, it reads \<open>9999-99-99 99:99:99\<close>.
\<close>

definition shape :: "pystr \<Rightarrow> pystr" where
  "shape t =
     map (\<lambda>c. if ord CHR ''0'' \<le> c \<and> c \<le> ord CHR ''9'' then ord CHR ''9'' else c) t"

section \<open>The runs of the fetch loops\<close>

text \<open>
  What one pass of the library loop does with the result of its call: it stops (\<open>None\<close>),
  or goes on with the page.
\<close>

definition library_step :: "search_result \<Rightarrow> nat \<Rightarrow> issue_obj list option" where
  "library_step res block_size =
     (case res of
        SearchRaises \<Rightarrow> None
      | SearchReturns issues \<Rightarrow> if length issues < block_size then None else Some issues)"

text \<open>
  The state of the library loop before its call number \<open>k\<close>, when the loop gets that far:
  the offset and the issues collected.
\<close>

fun library_state :: "jira_client \<Rightarrow> nat \<Rightarrow> nat \<Rightarrow> (nat \<times> issue_obj list) option" where
  "library_state search block_size 0 = Some (0, [])"
| "library_state search block_size (Suc k) =
     (case library_state search block_size k of
        None \<Rightarrow> None
      | Some (start_at, all_issues) \<Rightarrow>
          (case library_step (search k start_at block_size) block_size of
             None \<Rightarrow> None
           | Some issues \<Rightarrow> Some (start_at + length issues, all_issues @ issues)))"

text \<open>The same for the REST loop.\<close>

definition api_step :: "http_response \<Rightarrow> nat \<Rightarrow> pyval list option" where
  "api_step res start_at =
     (case res of
        Response status_code (Some (PDict data)) \<Rightarrow>
          if status_code \<noteq> 200 then None
          else
            (case py_iter (dict_get data (ascii ''issues'') (PList [])) of
               Inl e \<Rightarrow> None
             | Inr issues \<Rightarrow>
                 (case py_ge (start_at + length issues)
                         (dict_get data (ascii ''total'') (PInt 0)) of
                    Inr False \<Rightarrow> Some issues
                  | _ \<Rightarrow> None))
      | _ \<Rightarrow> None)"

fun api_state :: "api_server \<Rightarrow> nat \<Rightarrow> nat \<Rightarrow> (nat \<times> pyval list) option" where
  "api_state get max_results 0 = Some (0, [])"
| "api_state get max_results (Suc k) =
     (case api_state get max_results k of
        None \<Rightarrow> None
      | Some (start_at, all_issues) \<Rightarrow>
          (case api_step (get k start_at max_results) start_at of
             None \<Rightarrow> None
           | Some issues \<Rightarrow> Some (start_at + length issues, all_issues @ issues)))"

text \<open>
  Sources that misbehave: a client that returns a full page at every call; a server that
  reports one record and never delivers it; a client and two servers that serve one full
  page and then fail: by raising, by a status 500, by a body that is not JSON.
\<close>

definition endless_client :: jira_client where
  "endless_client = (\<lambda>call start_at max_results. SearchReturns (replicate max_results (Issue PNone)))"

definition stuck_server :: api_server where
  "stuck_server =
     (\<lambda>call start_at max_results.
        Response 200 (Some (PDict [(ascii ''issues'', PList []), (ascii ''total'', PInt 1)])))"

definition flaky_client :: jira_client where
  "flaky_client =
     (\<lambda>call start_at max_results.
        if call = 0 then SearchReturns (replicate max_results (Issue (PInt 1)))
        else SearchRaises)"

definition failing_server :: api_server where
  "failing_server =
     (\<lambda>call start_at max_results.
        if call = 0 then
          Response 200 (Some (PDict [(ascii ''issues'', PList (replicate max_results (PInt 1))),
                                     (ascii ''total'', PInt 250)]))
        else Response 500 None)"

definition garbled_server :: api_server where
  "garbled_server =
     (\<lambda>call start_at max_results.
        if call = 0 then
          Response 200 (Some (PDict [(ascii ''issues'', PList (replicate max_results (PInt 1))),
                                     (ascii ''total'', PInt 250)]))
        else Response 200 None)"

text \<open>
  The transport failures of the REST path: the request raises, the answer has a status
  other than 200, or its body is not JSON, so that \<open>response.json()\<close> raises.
\<close>

definition transport_failure :: "http_response \<Rightarrow> bool" where
  "transport_failure res =
     (case res of
        RequestRaises \<Rightarrow> True
      | Response status_code body \<Rightarrow> status_code \<noteq> 200 \<or> body = None)"

text \<open>A raw issue that holds a creation time only.\<close>

definition dated_issue :: "pyval \<Rightarrow> pyval" where
  "dated_issue created = PDict [(ascii ''fields'', PDict [(ascii ''created'', created)])]"

section \<open>Properties of safe_get\<close>

lemma ascii_eq_iff [simp]: "ascii a = ascii b \<longleftrightarrow> a = b"
  unfolding ascii_def ord_def by (simp add: inj_on_def)

lemma py_eq_PNone [simp]: "py_eq v PNone \<longleftrightarrow> v = PNone"
  by (cases v) simp_all

lemma py_eq_PStr [simp]: "py_eq v (PStr s) \<longleftrightarrow> v = PStr s"
  by (cases v) auto

lemma py_eq_PList_Nil [simp]: "py_eq v (PList []) \<longleftrightarrow> v = PList []"
proof (cases v)
  case (PList xs)
  then show ?thesis by (cases xs) simp_all
qed simp_all

lemma in_none_or_empty_iff: "in_none_or_empty v \<longleftrightarrow> v = PNone \<or> v = PStr []"
  by (simp add: in_none_or_empty_def)

lemma descend_not_dict:
  "\<forall>m. d \<noteq> PDict m \<Longrightarrow> descend d keys = (if keys = [] then Some d else None)"
  by (cases keys; cases d) simp_all

text \<open>
  For a default that is neither \<open>None\<close>, the empty string nor a dict, and that \<open>==\<close>
  tells apart from every other value (a string and the empty list are such defaults),
  the loop computes the descent of the specification.
\<close>

lemma safe_get_loop_descend:
  assumes "\<And>v. py_eq v d \<longleftrightarrow> v = d" and "d \<noteq> PNone" and "d \<noteq> PStr []"
    and "\<forall>m. d \<noteq> PDict m"
  shows "safe_get_loop data keys d =
    (case descend data keys of
       None \<Rightarrow> d
     | Some v \<Rightarrow> if v = PNone \<or> v = PStr [] then d else v)"
proof (induction keys arbitrary: data)
  case Nil
  show ?case by (simp add: in_none_or_empty_iff)
next
  case (Cons key keys)
  show ?case
  proof (cases data)
    case (PDict m)
    show ?thesis
    proof (cases "map_of m key")
      case None
      with PDict assms show ?thesis
        by (simp add: dict_get_def in_none_or_empty_iff)
    next
      case (Some v)
      show ?thesis
      proof (cases "v = d")
        case True
        with PDict Some assms show ?thesis
          by (simp add: dict_get_def in_none_or_empty_iff descend_not_dict)
      next
        case False
        with PDict Some assms Cons.IH [of v] show ?thesis
          by (simp add: dict_get_def)
      qed
    qed
  qed simp_all
qed

lemma safe_get_loop_not_empty:
  assumes "\<And>v. py_eq v d \<longleftrightarrow> v = d" and "d \<noteq> PNone" and "d \<noteq> PStr []"
    and "\<forall>m. d \<noteq> PDict m"
  shows "safe_get_loop data keys d \<noteq> PNone \<and> safe_get_loop data keys d \<noteq> PStr []"
  using assms by (simp add: safe_get_loop_descend [OF assms] split: option.split)

text \<open>
  C3. \<open>safe_get\<close> with the sentinel as default is a total function of any value and any
  path string: it returns the value found by descending the path key by key, and the
  sentinel when a step meets a value that is not a mapping or a key that is absent, or
  when the value found is \<open>None\<close> or the empty string. Its result is never \<open>None\<close>
  and never the empty string. No step of its body can raise on these values, so the
  function has no error result.
\<close>

theorem safe_get_sentinel_total:
  "safe_get data keys (PStr sentinel) =
     (case descend data (py_split (ord CHR ''.'') keys) of
        None \<Rightarrow> PStr sentinel
      | Some v \<Rightarrow> if v = PNone \<or> v = PStr [] then PStr sentinel else v)
   \<and> safe_get data keys (PStr sentinel) \<noteq> PNone
   \<and> safe_get data keys (PStr sentinel) \<noteq> PStr []"
proof -
  have d: "\<And>v. py_eq v (PStr sentinel) \<longleftrightarrow> v = PStr sentinel"
    "PStr sentinel \<noteq> PNone" "PStr sentinel \<noteq> PStr []" "\<forall>m. PStr sentinel \<noteq> PDict m"
    by (simp_all add: sentinel_def)
  show ?thesis
    unfolding safe_get_def
    using safe_get_loop_descend [OF d] safe_get_loop_not_empty [OF d] by simp
qed

theorem safe_get_sentinel_total_witness:
  "safe_get (PDict [(ascii ''status'', PDict [(ascii ''name'', PStr (ascii ''Open''))])])
     (ascii ''status.name'') (PStr sentinel) = PStr (ascii ''Open'')
   \<and> safe_get (PDict [(ascii ''status'', PNone)]) (ascii ''status.name'') (PStr sentinel)
       = PStr sentinel"
  using safe_get_sentinel_total
          [of "PDict [(ascii ''status'', PDict [(ascii ''name'', PStr (ascii ''Open''))])]"
              "ascii ''status.name''"]
        safe_get_sentinel_total [of "PDict [(ascii ''status'', PNone)]" "ascii ''status.name''"]
  by (simp add: ascii_def ord_def)

section \<open>Properties of format_dataframe\<close>

lemma comment_rows_loop_eq:
  "comment_rows_loop item cs formatted =
     formatted @ map (\<lambda>c. row_of item (c_body c) (c_author c) (c_created c)) cs"
  by (induction cs arbitrary: formatted) simp_all

lemma format_dataframe_loop_eq:
  "format_dataframe_loop data formatted = formatted @ concat (map issue_rows data)"
  by (induction data arbitrary: formatted) (simp_all add: issue_rows_def comment_rows_loop_eq)

lemma format_dataframe_concat: "format_dataframe data = concat (map issue_rows data)"
  by (simp add: format_dataframe_def format_dataframe_loop_eq)

lemma format_dataframe_append:
  "format_dataframe (xs @ ys) = format_dataframe xs @ format_dataframe ys"
  by (simp add: format_dataframe_concat)

lemma length_issue_rows: "length (issue_rows item) = max 1 (length (i_comment_data item))"
  by (cases "i_comment_data item") (simp_all add: issue_rows_def)

lemma length_format_dataframe:
  "length (format_dataframe data) =
     sum_list (map (\<lambda>item. max 1 (length (i_comment_data item))) data)"
  by (induction data) (simp_all add: format_dataframe_concat length_issue_rows)

lemma length_format_dataframe_ge: "length data \<le> length (format_dataframe data)"
  by (induction data) (simp_all add: format_dataframe_concat length_issue_rows)

text \<open>
  C2. Row expansion follows the row rule issue by issue, in the order of the issues: the
  i-th issue gives \<open>max 1 M\<close> rows for its \<open>M\<close> comments, one placeholder row when it has
  none and otherwise one row per comment in the order of the comments, all with the scalar
  fields of the issue. The number of rows is the sum of these counts, it is 5 for the
  comment counts 0, 1, 3, and it is never below the number of issues.
\<close>

theorem row_expansion:
  "format_dataframe data = concat (map issue_rows data)
   \<and> length (issue_rows item) = max 1 (length (i_comment_data item))
   \<and> (i_comment_data item = [] \<longrightarrow> length (issue_rows item) = 1)
   \<and> (i_comment_data item \<noteq> [] \<longrightarrow>
        issue_rows item =
          map (\<lambda>c. row_of item (c_body c) (c_author c) (c_created c)) (i_comment_data item))
   \<and> (\<forall>r \<in> set (issue_rows item).
        r_key r = i_key item \<and> r_type r = i_type item \<and> r_Summary r = i_Summary item
        \<and> r_created r = i_created item \<and> r_created_year r = i_created_year item
        \<and> r_created_month r = i_created_month item \<and> r_status r = i_status item
        \<and> r_resolution r = i_resolution item \<and> r_environment r = i_environment item
        \<and> r_description r = i_description item)
   \<and> length (format_dataframe data) =
        sum_list (map (\<lambda>item. max 1 (length (i_comment_data item))) data)
   \<and> (map (\<lambda>item. length (i_comment_data item)) data = [0, 1, 3] \<longrightarrow>
        length (format_dataframe data) = 5)
   \<and> length data \<le> length (format_dataframe data)"
proof -
  have shared: "\<forall>r \<in> set (issue_rows item).
        r_key r = i_key item \<and> r_type r = i_type item \<and> r_Summary r = i_Summary item
        \<and> r_created r = i_created item \<and> r_created_year r = i_created_year item
        \<and> r_created_month r = i_created_month item \<and> r_status r = i_status item
        \<and> r_resolution r = i_resolution item \<and> r_environment r = i_environment item
        \<and> r_description r = i_description item"
    by (auto simp: issue_rows_def row_of_def)
  have example: "length (format_dataframe data) = 5"
    if "map (\<lambda>item. length (i_comment_data item)) data = [0, 1, 3]"
  proof -
    have "map (\<lambda>item. max 1 (length (i_comment_data item))) data
          = map (max 1) (map (\<lambda>item. length (i_comment_data item)) data)"
      by simp
    also have "\<dots> = [1, 1, 3]" unfolding that by simp
    finally show ?thesis by (simp add: length_format_dataframe)
  qed
  have one: "i_comment_data item = [] \<longrightarrow> length (issue_rows item) = 1"
    by (simp add: issue_rows_def)
  have many: "i_comment_data item \<noteq> [] \<longrightarrow>
        issue_rows item =
          map (\<lambda>c. row_of item (c_body c) (c_author c) (c_created c)) (i_comment_data item)"
    by (simp add: issue_rows_def)
  from format_dataframe_concat [of data] length_issue_rows [of item] one many shared
    length_format_dataframe [of data] example length_format_dataframe_ge [of data]
  show ?thesis by blast
qed

theorem row_expansion_witness:
  "map (\<lambda>item. length (i_comment_data item)) [example_issue 0, example_issue 1, example_issue 3]
     = [0, 1, 3]
   \<and> length (format_dataframe [example_issue 0, example_issue 1, example_issue 3]) = 5
   \<and> map r_comment (format_dataframe [example_issue 0, example_issue 1, example_issue 3])
     = [PStr no_comment_marker, PInt 0, PInt 0, PInt 1, PInt 2]
   \<and> i_comment_data (example_issue 3) \<noteq> []
   \<and> map r_comment (issue_rows (example_issue 3)) = [PInt 0, PInt 1, PInt 2]"
  using row_expansion [of "[example_issue 0, example_issue 1, example_issue 3]" "example_issue 3"]
  by (simp add: example_issue_def example_comment_def issue_rows_def row_of_def upt_rec)

section \<open>The placeholder row\<close>

text \<open>
  C8, as amended. An issue without comments gives exactly one row, at its place among the
  rows: its comment is the marker of an issue without comments, which differs from the
  sentinel, and its comment author and comment time are the empty string.
\<close>

theorem placeholder_row:
  assumes "i_comment_data item = []"
  shows "format_dataframe (before @ [item] @ after) =
           format_dataframe before
           @ [row_of item (PStr no_comment_marker) (PStr []) (PStr [])]
           @ format_dataframe after
       \<and> r_comment (row_of item (PStr no_comment_marker) (PStr []) (PStr [])) = PStr no_comment_marker
       \<and> r_comment_author (row_of item (PStr no_comment_marker) (PStr []) (PStr [])) = PStr []
       \<and> r_comment_created_time (row_of item (PStr no_comment_marker) (PStr []) (PStr [])) = PStr []
       \<and> no_comment_marker \<noteq> sentinel"
  using assms
  by (simp add: format_dataframe_concat issue_rows_def row_of_def no_comment_marker_def sentinel_def)

theorem placeholder_row_witness:
  "i_comment_data (example_issue 0) = []
   \<and> map r_comment (format_dataframe ([example_issue 1] @ [example_issue 0] @ [])) =
       [PInt 0, PStr no_comment_marker]
   \<and> map r_comment_author (format_dataframe ([example_issue 1] @ [example_issue 0] @ [])) =
       [PStr (ascii ''ann''), PStr []]"
  using placeholder_row [of "example_issue 0" "[example_issue 1]" "[]"]
  by (simp add: example_issue_def example_comment_def format_dataframe_def row_of_def)

text \<open>
  C8, as stated, fails: the placeholder row of an issue without comments has the empty
  string, not the marker, as comment author and as comment time.
\<close>

theorem placeholder_author_not_marker:
  "i_comment_data (example_issue 0) = []
   \<and> format_dataframe [example_issue 0] =
       [row_of (example_issue 0) (PStr no_comment_marker) (PStr []) (PStr [])]
   \<and> r_comment_author (row_of (example_issue 0) (PStr no_comment_marker) (PStr []) (PStr []))
       \<noteq> PStr no_comment_marker
   \<and> r_comment_created_time (row_of (example_issue 0) (PStr no_comment_marker) (PStr []) (PStr []))
       \<noteq> PStr no_comment_marker"
  by (simp add: example_issue_def format_dataframe_def row_of_def no_comment_marker_def)

section \<open>Evaluating the normalization\<close>

lemma ascii_neq_sentinel [simp]: "ascii s \<noteq> sentinel"
proof (cases s)
  case Nil
  then show ?thesis by (simp add: ascii_def sentinel_def)
next
  case (Cons c cs)
  have "(of_char c :: nat) < 256" by simp
  then have "(of_char c :: nat) \<noteq> 23383" by linarith
  with Cons show ?thesis by (simp add: ascii_def ord_def sentinel_def)
qed

lemma ascii_Nil_iff [simp]: "ascii s = [] \<longleftrightarrow> s = []"
  by (simp add: ascii_def)

lemma sentinel_not_Nil [simp]: "sentinel \<noteq> []"
  by (simp add: sentinel_def)

lemma py_split_not_Nil: "py_split sep s \<noteq> []"
  by (induction s) (simp_all split: list.split)

lemma path_splits:
  "py_split (ord CHR ''.'') (ascii ''key'') = [ascii ''key'']"
  "py_split (ord CHR ''.'') (ascii ''issuetype.name'') = [ascii ''issuetype'', ascii ''name'']"
  "py_split (ord CHR ''.'') (ascii ''summary'') = [ascii ''summary'']"
  "py_split (ord CHR ''.'') (ascii ''created'') = [ascii ''created'']"
  "py_split (ord CHR ''.'') (ascii ''status.name'') = [ascii ''status'', ascii ''name'']"
  "py_split (ord CHR ''.'') (ascii ''resolution.name'') = [ascii ''resolution'', ascii ''name'']"
  "py_split (ord CHR ''.'') (ascii ''environment'') = [ascii ''environment'']"
  "py_split (ord CHR ''.'') (ascii ''description'') = [ascii ''description'']"
  "py_split (ord CHR ''.'') (ascii ''comment.comments'') = [ascii ''comment'', ascii ''comments'']"
  "py_split (ord CHR ''.'') (ascii ''body'') = [ascii ''body'']"
  "py_split (ord CHR ''.'') (ascii ''author.displayName'') = [ascii ''author'', ascii ''displayName'']"
  by (simp_all add: ascii_def ord_def)

lemma decimal_sentinel: "decimal 23383 = None"
  by (simp add: decimal_def decimal_zeros_def)

lemma format_regex_match_sentinel: "format_regex_match sentinel = []"
  by (simp add: format_regex_match_def sentinel_def rx_group_def re_Y_def rx_seqs_def
      rx_seq_def rx_digit_def rx_char_def decimal_sentinel)

lemma strptime_sentinel: "strptime sentinel = None"
  by (simp add: strptime_def format_regex_match_sentinel)

lemma convert_time_sentinel: "convert_time (PStr sentinel) = PStr sentinel"
  by (simp add: convert_time_def convert_time_try_def strptime_sentinel)

lemmas eval_normalize =
  normalize_issue_def safe_get_def path_splits dict_get_def Let_def in_none_or_empty_iff
  convert_time_sentinel comment_list_of_def comment_data_of_def py_slice_def

lemma normalize_bare_issue:
  "filled k \<Longrightarrow> normalize_issue (bare_issue k) =
     Inr \<lparr>i_key = k, i_type = PStr sentinel, i_Summary = PStr sentinel,
          i_created = PStr sentinel, i_status = PStr sentinel, i_resolution = PStr sentinel,
          i_environment = PStr sentinel, i_description = PStr sentinel, i_comments = PList [],
          i_created_year = PStr sentinel, i_created_month = PStr sentinel, i_comment_data = []\<rparr>"
  by (simp add: eval_normalize bare_issue_def filled_def)

lemma normalize_not_dict: "normalize_issue (PInt n) = Inl AttributeError"
  by (simp add: normalize_issue_def)

lemma normalize_commented_issue:
  "normalize_issue (commented_issue (PStr (ascii ''A-1'')) [PDict [(ascii ''body'', PStr (ascii ''hi''))], PInt 3]) =
     Inr \<lparr>i_key = PStr (ascii ''A-1''), i_type = PStr sentinel, i_Summary = PStr sentinel,
          i_created = PStr sentinel, i_status = PStr sentinel, i_resolution = PStr sentinel,
          i_environment = PStr sentinel, i_description = PStr sentinel,
          i_comments = PList [PDict [(ascii ''body'', PStr (ascii ''hi''))], PInt 3],
          i_created_year = PStr sentinel, i_created_month = PStr sentinel,
          i_comment_data = [\<lparr>c_body = PStr (ascii ''hi''), c_author = PStr sentinel, c_created = PStr sentinel\<rparr>,
                            \<lparr>c_body = PStr sentinel, c_author = PStr sentinel, c_created = PStr sentinel\<rparr>]\<rparr>"
  by (simp add: eval_normalize commented_issue_def)

section \<open>Properties of process_issues\<close>

lemma process_issues_loop_eq:
  "process_issues_loop issues processed printed =
     (processed @ concat (map normalized issues), printed @ concat (map reported issues))"
  by (induction issues arbitrary: processed printed)
     (simp_all add: normalized_def reported_def split: sum.split)

lemma process_issues_concat: "process_issues issues = concat (map normalized issues)"
  by (simp add: process_issues_def process_issues_loop_eq)

lemma process_issues_printed_concat:
  "process_issues_printed issues = concat (map reported issues)"
  by (simp add: process_issues_printed_def process_issues_loop_eq)

lemma length_normalized_reported: "length (normalized issue) + length (reported issue) = 1"
  by (simp add: normalized_def reported_def split: sum.split)

lemma length_process_issues:
  "length (process_issues issues) + length (process_issues_printed issues) = length issues"
proof (induction issues)
  case Nil
  show ?case by (simp add: process_issues_concat process_issues_printed_concat)
next
  case (Cons a issues)
  with length_normalized_reported [of a] show ?case
    by (simp add: process_issues_concat process_issues_printed_concat)
qed

text \<open>
  C5. \<open>process_issues\<close> returns, in order, the records of the issues whose normalization
  does not raise, and prints one report for each issue whose normalization raises; an
  issue that raises removes nothing but its own record, wherever it stands; of three issues
  of which the second raises, the records of the first and the third are returned. The
  function has no error result: every exception of the loop body is caught there.
\<close>

theorem failure_isolation:
  "process_issues issues = concat (map normalized issues)
   \<and> process_issues_printed issues = concat (map reported issues)
   \<and> length (process_issues issues) + length (process_issues_printed issues) = length issues
   \<and> (normalize_issue bad = Inl e \<longrightarrow>
        process_issues (before @ [bad] @ after) = process_issues before @ process_issues after
        \<and> process_issues_printed (before @ [bad] @ after) =
            process_issues_printed before @ [e] @ process_issues_printed after)
   \<and> (normalize_issue i1 = Inr r1 \<and> normalize_issue i2 = Inl e \<and> normalize_issue i3 = Inr r3 \<longrightarrow>
        process_issues [i1, i2, i3] = [r1, r3] \<and> process_issues_printed [i1, i2, i3] = [e])"
  by (simp add: process_issues_concat process_issues_printed_concat length_process_issues [unfolded process_issues_concat process_issues_printed_concat]
      normalized_def reported_def)


theorem failure_isolation_witness:
  "normalize_issue (PInt 7) = Inl AttributeError
   \<and> map i_key (process_issues ([bare_issue (PStr (ascii ''A-1''))] @ [PInt 7]
                                  @ [bare_issue (PStr (ascii ''A-3''))]))
     = [PStr (ascii ''A-1''), PStr (ascii ''A-3'')]
   \<and> process_issues_printed ([bare_issue (PStr (ascii ''A-1''))] @ [PInt 7]
                              @ [bare_issue (PStr (ascii ''A-3''))])
     = [AttributeError]"
  using failure_isolation [where bad = "PInt 7" and e = AttributeError
      and before = "[bare_issue (PStr (ascii ''A-1''))]"
      and after = "[bare_issue (PStr (ascii ''A-3''))]"]
  by (simp add: normalize_not_dict normalize_bare_issue process_issues_concat
      process_issues_printed_concat normalized_def reported_def filled_def)

section \<open>Filled fields\<close>

lemma filled_simps [simp]:
  "filled (PStr sentinel)" "filled (PList xs)" "filled (PInt n)" "filled (PBool b)"
  "filled (PDict m)" "\<not> filled PNone" "filled (PStr s) \<longleftrightarrow> s \<noteq> []"
  by (simp_all add: filled_def)

lemma safe_get_filled: "filled (safe_get data keys (PStr sentinel))"
proof -
  have d: "\<And>v. py_eq v (PStr sentinel) \<longleftrightarrow> v = PStr sentinel"
    "PStr sentinel \<noteq> PNone" "PStr sentinel \<noteq> PStr []" "\<forall>m. PStr sentinel \<noteq> PDict m"
    by simp_all
  show ?thesis
    unfolding safe_get_def filled_def using safe_get_loop_not_empty [OF d] by simp
qed

lemma safe_get_list_filled: "filled (safe_get data keys (PList []))"
proof -
  have d: "\<And>v. py_eq v (PList []) \<longleftrightarrow> v = PList []"
    "PList [] \<noteq> PNone" "PList [] \<noteq> PStr []" "\<forall>m. PList [] \<noteq> PDict m"
    by simp_all
  show ?thesis
    unfolding safe_get_def filled_def using safe_get_loop_not_empty [OF d] by simp
qed

lemma strftime_not_Nil: "strftime dt \<noteq> []"
  by (simp add: strftime_def two_digits_def)

lemma convert_time_cases:
  "convert_time v =
     (case v of
        PStr s \<Rightarrow> (case strptime s of None \<Rightarrow> v | Some dt \<Rightarrow> PStr (strftime dt))
      | _ \<Rightarrow> v)"
  by (simp add: convert_time_def convert_time_try_def split: pyval.split option.split)

lemma convert_time_filled: "filled v \<Longrightarrow> filled (convert_time v)"
  by (auto simp: convert_time_cases filled_def strftime_not_Nil split: pyval.split option.split)

lemma py_slice_year_filled: "filled v \<Longrightarrow> py_slice 0 4 v = Inr y \<Longrightarrow> filled y"
  by (auto simp: py_slice_def filled_def split: pyval.splits)

lemma comment_data_of_filled:
  "filled (c_body (comment_data_of c)) \<and> filled (c_author (comment_data_of c))
   \<and> filled (c_created (comment_data_of c))"
  by (simp add: comment_data_of_def safe_get_filled convert_time_filled)

lemma comment_list_of_filled:
  "c \<in> set (comment_list_of v) \<Longrightarrow> filled (c_body c) \<and> filled (c_author c) \<and> filled (c_created c)"
  by (auto simp: comment_list_of_def comment_data_of_filled split: pyval.splits if_splits)

lemma normalize_issue_filled:
  assumes "normalize_issue issue = Inr r"
  shows "issue_filled r"
proof -
  from assms obtain m where m: "issue = PDict m"
    by (cases issue) (simp_all add: normalize_issue_def)
  define fields where "fields = dict_get m (ascii ''fields'') (PDict [])"
  define created where "created = convert_time (safe_get fields (ascii ''created'') (PStr sentinel))"
  have fc: "filled created"
    unfolding created_def by (rule convert_time_filled) (rule safe_get_filled)
  have cl: "list_all (\<lambda>c. filled (c_body c) \<and> filled (c_author c) \<and> filled (c_created c))
              (comment_list_of v)" for v
    using comment_list_of_filled [of _ v] by (simp add: list_all_iff)
  show ?thesis
  proof (cases "created = PStr sentinel")
    case True
    with assms m show ?thesis
      unfolding issue_filled_def
      by (auto simp: normalize_issue_def Let_def fields_def [symmetric] created_def [symmetric]
          safe_get_filled safe_get_list_filled cl)
  next
    case False
    from assms m False obtain y mo where y: "py_slice 0 4 created = Inr y"
      and mo: "py_slice 5 7 created = Inr mo"
      by (auto simp: normalize_issue_def Let_def fields_def [symmetric] created_def [symmetric]
          split: sum.splits)
    from py_slice_year_filled [OF fc y] have fy: "filled y" .
    from assms m False y mo fc fy show ?thesis
      unfolding issue_filled_def
      by (auto simp: normalize_issue_def Let_def fields_def [symmetric] created_def [symmetric]
          safe_get_filled safe_get_list_filled cl)
  qed
qed

lemma issue_rows_filled: "issue_filled item \<Longrightarrow> list_all row_filled (issue_rows item)"
  by (auto simp: issue_rows_def row_filled_def row_of_def issue_filled_def list_all_iff
      no_comment_marker_def)

lemma list_all_normalized: "list_all issue_filled (normalized issue)"
  by (auto simp: normalized_def normalize_issue_filled split: sum.split)

lemma list_all_concat_map:
  "(\<And>x. list_all P (f x)) \<Longrightarrow> list_all P (concat (map f xs))"
  by (induction xs) simp_all

lemma list_all_concat_map_if:
  "list_all Q xs \<Longrightarrow> (\<And>x. Q x \<Longrightarrow> list_all P (f x)) \<Longrightarrow> list_all P (concat (map f xs))"
  by (induction xs) simp_all

lemma process_issues_filled: "list_all issue_filled (process_issues issues)"
  unfolding process_issues_concat by (rule list_all_concat_map) (rule list_all_normalized)

text \<open>
  C4, as amended. In every record that \<open>process_issues\<close> returns, the fields key, type,
  Summary, created, created_year, status, resolution, environment, description and
  comments, and the body, author and created time of every comment, are neither \<open>None\<close>
  nor the empty string. The export rows carry the same scalar fields and a filled comment;
  their comment author and comment time are filled as well, except in the placeholder row
  of an issue without comments, where the comment is the marker and both are the empty
  string. (The field created_month is not part of the statement.)
\<close>

theorem normalized_output_filled:
  "list_all issue_filled (process_issues issues)
   \<and> list_all row_filled (format_dataframe (process_issues issues))"
proof
  show "list_all issue_filled (process_issues issues)" by (rule process_issues_filled)
  show "list_all row_filled (format_dataframe (process_issues issues))"
    unfolding format_dataframe_concat
    by (rule list_all_concat_map_if [OF process_issues_filled]) (rule issue_rows_filled)
qed

theorem normalized_output_filled_witness:
  "length (process_issues [commented_issue (PStr (ascii ''A-1''))
             [PDict [(ascii ''body'', PStr (ascii ''hi''))], PInt 3], PInt 7]) = 1
   \<and> list_all issue_filled (process_issues [commented_issue (PStr (ascii ''A-1''))
             [PDict [(ascii ''body'', PStr (ascii ''hi''))], PInt 3], PInt 7])
   \<and> map r_comment (format_dataframe (process_issues [commented_issue (PStr (ascii ''A-1''))
             [PDict [(ascii ''body'', PStr (ascii ''hi''))], PInt 3], PInt 7]))
      = [PStr (ascii ''hi''), PStr sentinel]
   \<and> list_all row_filled (format_dataframe (process_issues [commented_issue (PStr (ascii ''A-1''))
             [PDict [(ascii ''body'', PStr (ascii ''hi''))], PInt 3], PInt 7]))"
  using normalized_output_filled [of "[commented_issue (PStr (ascii ''A-1''))
             [PDict [(ascii ''body'', PStr (ascii ''hi''))], PInt 3], PInt 7]"]
  by (simp add: process_issues_concat normalized_def normalize_commented_issue
      normalize_not_dict format_dataframe_concat issue_rows_def row_of_def)

text \<open>
  C4, as stated, fails: the export row of an issue without comments has the empty string
  in two of its string fields.
\<close>

theorem placeholder_fields_empty:
  "process_issues [bare_issue (PStr (ascii ''A-1''))] \<noteq> []
   \<and> map r_comment_author (format_dataframe (process_issues [bare_issue (PStr (ascii ''A-1''))]))
       = [PStr []]
   \<and> map r_comment_created_time
         (format_dataframe (process_issues [bare_issue (PStr (ascii ''A-1''))]))
       = [PStr []]"
  by (simp add: process_issues_concat normalized_def normalize_bare_issue
      format_dataframe_concat issue_rows_def row_of_def)

section \<open>Properties of convert_time\<close>

lemma days_in_month_le: "days_in_month y m \<le> 31"
  by (simp add: days_in_month_def)

lemma make_datetime_range:
  assumes "make_datetime y mo d h mi s us off = Some dt"
  shows "1 \<le> year dt \<and> year dt \<le> 9999 \<and> 1 \<le> month dt \<and> month dt \<le> 12 \<and> 1 \<le> day dt
    \<and> day dt \<le> 31 \<and> hour dt \<le> 23 \<and> minute dt \<le> 59 \<and> second dt \<le> 59"
proof -
  from assms have *: "1 \<le> y \<and> y \<le> 9999 \<and> 1 \<le> mo \<and> mo \<le> 12 \<and> 1 \<le> d \<and> d \<le> days_in_month y mo
         \<and> h \<le> 23 \<and> mi \<le> 59 \<and> s \<le> 59"
    and dt: "dt = \<lparr>year = y, month = mo, day = d, hour = h, minute = mi, second = s,
                  microsecond = us, utcoffset = off\<rparr>"
    by (auto simp: make_datetime_def split: if_splits)
  from * days_in_month_le [of y mo] have "d \<le> 31" by linarith
  with * dt show ?thesis by simp
qed

lemma strptime_range:
  assumes "strptime s = Some dt"
  shows "1 \<le> year dt \<and> year dt \<le> 9999 \<and> 1 \<le> month dt \<and> month dt \<le> 12 \<and> 1 \<le> day dt
    \<and> day dt \<le> 31 \<and> hour dt \<le> 23 \<and> minute dt \<le> 59 \<and> second dt \<le> 59"
proof -
  from assms obtain y mo d h mi sec us off where "make_datetime y mo d h mi sec us off = Some dt"
    by (auto simp: strptime_def bind_eq_Some_conv split: list.splits prod.splits if_splits)
  then show ?thesis by (rule make_datetime_range)
qed

lemma shape_digit: "shape [digit n] = ascii ''9''"
proof -
  have "n mod 10 \<le> 9" by linarith
  then show ?thesis by (simp add: shape_def digit_def ascii_def ord_def)
qed

lemma shape_Cons: "shape (c # t) = shape [c] @ shape t"
  by (simp add: shape_def)

lemma shape_append: "shape (a @ b) = shape a @ shape b"
  by (simp add: shape_def)

lemma shape_two_digits: "shape (two_digits n) = ascii ''99''"
  by (simp add: two_digits_def shape_Cons [of _ "[_]"] shape_digit) (simp add: ascii_def)

lemma shape_year_digits: "1000 \<le> y \<Longrightarrow> shape (year_digits y) = ascii ''9999''"
  by (simp add: year_digits_def shape_Cons [of _ "_ # _"] shape_digit) (simp add: ascii_def)

text \<open>For a year from 1000 on the text has the canonical form.\<close>

lemma shape_strftime:
  assumes "1000 \<le> year dt"
  shows "shape (strftime dt) = ascii ''9999-99-99 99:99:99''"
proof -
  have sep: "shape (ascii ''-'') = ascii ''-''" "shape (ascii '' '') = ascii '' ''"
    "shape (ascii '':'') = ascii '':''"
    by (simp_all add: shape_def ascii_def ord_def)
  have "ascii ''9999-99-99 99:99:99'' =
     ascii ''9999'' @ ascii ''-'' @ ascii ''99'' @ ascii ''-'' @ ascii ''99'' @ ascii '' ''
      @ ascii ''99'' @ ascii '':'' @ ascii ''99'' @ ascii '':'' @ ascii ''99''"
    by (simp add: ascii_def)
  then show ?thesis
    by (simp add: strftime_def shape_append shape_two_digits shape_year_digits [OF assms] sep)
qed

lemma strftime_offset: "strftime (dt\<lparr>utcoffset := off, microsecond := us\<rparr>) = strftime dt"
  by (simp add: strftime_def)

text \<open>
  What \<open>convert_time\<close> returns: the sentinel for the sentinel, its argument for every
  argument that the parser refuses and for every argument that is not a string, and for
  a string that the parser accepts the text of the date and the time of day, whatever the
  offset and the fraction of the second were. It has no other result, and no error result:
  the bare \<open>except\<close> catches every exception of the body.
\<close>

lemma convert_time_results:
  "convert_time (PStr sentinel) = PStr sentinel
   \<and> (strptime s = None \<longrightarrow> convert_time (PStr s) = PStr s)
   \<and> ((\<forall>t. v \<noteq> PStr t) \<longrightarrow> convert_time v = v)
   \<and> (strptime s = Some dt \<longrightarrow> convert_time (PStr s) = PStr (strftime dt))
   \<and> (convert_time v = v
       \<or> (\<exists>t d. v = PStr t \<and> strptime t = Some d \<and> convert_time v = PStr (strftime d)))"
proof -
  have a: "strptime s = None \<longrightarrow> convert_time (PStr s) = PStr s"
    by (simp add: convert_time_cases)
  have b: "(\<forall>t. v \<noteq> PStr t) \<longrightarrow> convert_time v = v"
    by (cases v) (simp_all add: convert_time_cases)
  have c: "strptime s = Some dt \<longrightarrow> convert_time (PStr s) = PStr (strftime dt)"
    by (simp add: convert_time_cases)
  have d: "convert_time v = v
       \<or> (\<exists>t d. v = PStr t \<and> strptime t = Some d \<and> convert_time v = PStr (strftime d))"
    by (cases v) (auto simp: convert_time_cases split: option.split)
  from convert_time_sentinel a b c d show ?thesis by blast
qed

subsection \<open>The parser on timestamps of the source\<close>

lemma decimal_ascii_digit: "48 \<le> c \<Longrightarrow> c \<le> 57 \<Longrightarrow> decimal c = Some (c - 48)"
  by (simp add: decimal_def decimal_zeros_def)

lemma decimal_below: "c < 48 \<Longrightarrow> decimal c = None"
  by (simp add: decimal_def decimal_zeros_def)

lemma decimal_between: "57 < c \<Longrightarrow> c < 1632 \<Longrightarrow> decimal c = None"
  by (simp add: decimal_def decimal_zeros_def)

lemma rx_upto_numeral:
  "rx_upto (numeral n) a = rx_opt (rx_seq a (rx_upto (pred_numeral n) a))"
  by (simp add: numeral_eq_Suc)

lemmas rx_defs = rx_seqs_def rx_alts_def rx_seq_def rx_alt_def rx_opt_def
  rx_digit_def rx_range_def rx_lit_def rx_char_def re_Y_def re_m_def re_d_def re_H_def
  re_M_def re_S_def re_f_def re_z_def re_T_def ord_def decimal_ascii_digit decimal_below
  decimal_between rx_upto_numeral

lemma ex_string: "ascii ''2024-07-15T10:00:00.000+0000'' = 
  [50, 48, 50, 52, 45, 48, 55, 45, 49, 53, 84, 49, 48, 58, 48, 48, 58, 48, 48, 46, 48, 48, 48, 43, 48, 48, 48, 48]"
  by (simp add: ascii_def ord_def)

lemma ex_Y: "rx_group re_Y (50 # 48 # 50 # 52 # r) = [([50, 48, 50, 52], r)]"
  by (simp add: rx_group_def rx_defs)

lemma ex_dash: "rx_lit CHR ''-'' (c # r) = (if c = 45 then [r] else [])"
  by (simp add: rx_defs)

lemma ex_colon: "rx_lit CHR '':'' (c # r) = (if c = 58 then [r] else [])"
  by (simp add: rx_defs)

lemma ex_dot: "rx_lit CHR ''.'' (c # r) = (if c = 46 then [r] else [])"
  by (simp add: rx_defs)

lemma ex_T: "re_T (c # r) = (if c = 84 \<or> c = 116 then [r] else [])"
  by (simp add: rx_defs)

lemma ex_m: "rx_group re_m (48 # 55 # r) = [([48, 55], r)]"
  by (simp add: rx_group_def rx_defs)

lemma ex_d: "rx_group re_d (49 # 53 # r) = [([49, 53], r), ([49], 53 # r)]"
  by (simp add: rx_group_def rx_defs)

lemma ex_H: "rx_group re_H (49 # 48 # r) = [([49, 48], r), ([49], 48 # r)]"
  by (simp add: rx_group_def rx_defs)

lemma ex_M: "rx_group re_M (48 # 48 # r) = [([48, 48], r), ([48], 48 # r)]"
  by (simp add: rx_group_def rx_defs)

lemma ex_S: "rx_group re_S (48 # 48 # r) = [([48, 48], r), ([48], 48 # r)]"
  by (simp add: rx_group_def rx_defs)

lemma ex_f: "rx_group re_f [48, 48, 48, 43, 48, 48, 48, 48] =
   [([48, 48, 48], [43, 48, 48, 48, 48]), ([48, 48], [48, 43, 48, 48, 48, 48]),
    ([48], [48, 48, 43, 48, 48, 48, 48])]"
  by (simp add: rx_group_def rx_defs)

lemma ex_z: "rx_group re_z [43, 48, 48, 48, 48] = [([43, 48, 48, 48, 48], [])]"
  by (simp add: rx_group_def rx_defs)

lemma ex_z2: "rx_group re_z (48 # r) = []"
  by (simp add: rx_group_def rx_defs)

lemma match_example:
  "format_regex_match (ascii ''2024-07-15T10:00:00.000+0000'') =
     [(\<lparr>g_Y = ascii ''2024'', g_m = ascii ''07'', g_d = ascii ''15'', g_H = ascii ''10'',
        g_M = ascii ''00'', g_S = ascii ''00'', g_f = ascii ''000'', g_z = ascii ''+0000''\<rparr>, [])]"
  by (simp add: format_regex_match_def ex_string ex_Y ex_dash ex_colon ex_dot ex_T ex_m ex_d
      ex_H ex_M ex_S ex_f ex_z ex_z2 ascii_def ord_def)


lemma replicate_numeral: "replicate (numeral k) x = x # replicate (pred_numeral k) x"
  by (simp add: numeral_eq_Suc)

lemma strptime_example:
  "strptime (ascii ''2024-07-15T10:00:00.000+0000'') =
     Some \<lparr>year = 2024, month = 7, day = 15, hour = 10, minute = 0, second = 0,
            microsecond = 0, utcoffset = 0\<rparr>"
  unfolding strptime_def match_example
  by (simp add: ascii_def ord_def py_int_def decimal_ascii_digit replicate_numeral
      zero_pad_def gmtoff_def strip_colons_def make_datetime_def days_in_month_def is_leap_def)

lemma strftime_example:
  "strftime \<lparr>year = 2024, month = 7, day = 15, hour = 10, minute = 0, second = 0,
            microsecond = 0, utcoffset = 0\<rparr> = ascii ''2024-07-15 10:00:00''"
  by (simp add: strftime_def year_digits_def two_digits_def digit_def ascii_def ord_def)

lemma strptime_abc: "strptime (ascii ''abc'') = None"
  by (simp add: strptime_def format_regex_match_def rx_group_def rx_defs ascii_def)

lemma convert_time_example:
  "convert_time (PStr (ascii ''2024-07-15T10:00:00.000+0000''))
     = PStr (ascii ''2024-07-15 10:00:00'')"
  by (simp add: convert_time_cases strptime_example strftime_example)

subsection \<open>A year below 1000\<close>

lemma early_string: "ascii ''0999-01-01T00:00:00.000+0000'' =
  [48, 57, 57, 57, 45, 48, 49, 45, 48, 49, 84, 48, 48, 58, 48, 48, 58, 48, 48, 46, 48, 48, 48,
   43, 48, 48, 48, 48]"
  by (simp add: ascii_def ord_def)

lemma early_Y: "rx_group re_Y (48 # 57 # 57 # 57 # r) = [([48, 57, 57, 57], r)]"
  by (simp add: rx_group_def rx_defs)

lemma early_m: "rx_group re_m (48 # 49 # r) = [([48, 49], r)]"
  by (simp add: rx_group_def rx_defs)

lemma early_d: "rx_group re_d (48 # 49 # r) = [([48, 49], r)]"
  by (simp add: rx_group_def rx_defs)

lemma early_H: "rx_group re_H (48 # 48 # r) = [([48, 48], r), ([48], 48 # r)]"
  by (simp add: rx_group_def rx_defs)

lemma match_early:
  "format_regex_match (ascii ''0999-01-01T00:00:00.000+0000'') =
     [(\<lparr>g_Y = ascii ''0999'', g_m = ascii ''01'', g_d = ascii ''01'', g_H = ascii ''00'',
        g_M = ascii ''00'', g_S = ascii ''00'', g_f = ascii ''000'', g_z = ascii ''+0000''\<rparr>, [])]"
  by (simp add: format_regex_match_def early_string early_Y ex_dash ex_colon ex_dot ex_T early_m
      early_d early_H ex_M ex_S ex_f ex_z ex_z2 ascii_def ord_def)

lemma strptime_early:
  "strptime (ascii ''0999-01-01T00:00:00.000+0000'') =
     Some \<lparr>year = 999, month = 1, day = 1, hour = 0, minute = 0, second = 0,
            microsecond = 0, utcoffset = 0\<rparr>"
  unfolding strptime_def match_early
  by (simp add: ascii_def ord_def py_int_def decimal_ascii_digit replicate_numeral
      zero_pad_def gmtoff_def strip_colons_def make_datetime_def days_in_month_def is_leap_def)

lemma strftime_early:
  "strftime \<lparr>year = 999, month = 1, day = 1, hour = 0, minute = 0, second = 0,
            microsecond = 0, utcoffset = 0\<rparr> = ascii ''999-01-01 00:00:00''"
  by (simp add: strftime_def year_digits_def two_digits_def digit_def ascii_def ord_def)

lemma convert_time_early:
  "convert_time (PStr (ascii ''0999-01-01T00:00:00.000+0000''))
     = PStr (ascii ''999-01-01 00:00:00'')"
  using strptime_early strftime_early by (simp add: convert_time_cases)

lemma normalize_dated_issue:
  "normalize_issue (dated_issue (PStr (ascii ''0999-01-01T00:00:00.000+0000''))) =
     Inr \<lparr>i_key = PStr sentinel, i_type = PStr sentinel, i_Summary = PStr sentinel,
          i_created = PStr (ascii ''999-01-01 00:00:00''), i_status = PStr sentinel,
          i_resolution = PStr sentinel, i_environment = PStr sentinel,
          i_description = PStr sentinel, i_comments = PList [],
          i_created_year = PStr (ascii ''999-''), i_created_month = PStr (ascii ''1-''),
          i_comment_data = []\<rparr>"
  by (simp add: eval_normalize dated_issue_def convert_time_early)
     (simp add: ascii_def)

text \<open>
  C9 fails on the code. The string \<open>0999-01-01T00:00:00.000+0000\<close> is in the format of
  the source and the parser accepts it, but \<open>convert_time\<close> returns
  \<open>999-01-01 00:00:00\<close>, which has a year of three digits and not the canonical form
  \<open>YYYY-MM-DD HH:MM:SS\<close>; \<open>process_issues\<close>, which cuts the year and the month out of
  that text by position, then stores \<open>999-\<close> as the year and \<open>1-\<close> as the month.
\<close>

theorem convert_time_year_below_1000:
  "strptime (ascii ''0999-01-01T00:00:00.000+0000'') =
     Some \<lparr>year = 999, month = 1, day = 1, hour = 0, minute = 0, second = 0,
            microsecond = 0, utcoffset = 0\<rparr>
   \<and> convert_time (PStr (ascii ''0999-01-01T00:00:00.000+0000''))
       = PStr (ascii ''999-01-01 00:00:00'')
   \<and> shape (ascii ''999-01-01 00:00:00'') \<noteq> ascii ''9999-99-99 99:99:99''
   \<and> map i_created_year
         (process_issues [dated_issue (PStr (ascii ''0999-01-01T00:00:00.000+0000''))])
       = [PStr (ascii ''999-'')]
   \<and> map i_created_month
         (process_issues [dated_issue (PStr (ascii ''0999-01-01T00:00:00.000+0000''))])
       = [PStr (ascii ''1-'')]"
proof -
  have "length (shape (ascii ''999-01-01 00:00:00'')) \<noteq> length (ascii ''9999-99-99 99:99:99'')"
    by (simp add: shape_def ascii_def)
  then have "shape (ascii ''999-01-01 00:00:00'') \<noteq> ascii ''9999-99-99 99:99:99''"
    by metis
  with strptime_early convert_time_early show ?thesis
    by (simp add: process_issues_concat normalized_def normalize_dated_issue)
qed

section \<open>Pagination\<close>

lemma library_loop_simulated:
  assumes "1 \<le> P"
  shows "library_loop (simulated_client records) P call start_at all_issues =
           Some (Done (all_issues @ map Issue (drop start_at records)))"
proof (induction "length records - start_at" arbitrary: call start_at all_issues
    rule: less_induct)
  case less
  let ?page = "take P (drop start_at records)"
  show ?case
  proof (cases "length ?page < P")
    case True
    then have "?page = drop start_at records" by (simp add: min_def split: if_splits)
    with True show ?thesis
      by (subst library_loop.simps) (simp add: simulated_client_def)
  next
    case False
    with assms have len: "length ?page = P" and lt: "start_at + P \<le> length records"
      by (auto simp: min_def split: if_splits)
    with assms have "length records - (start_at + P) < length records - start_at" by linarith
    from less [OF this]
    have "library_loop (simulated_client records) P (Suc call) (start_at + P) (all_issues @ map Issue ?page)
          = Some (Done ((all_issues @ map Issue ?page) @ map Issue (drop (start_at + P) records)))" .
    moreover have "map Issue ?page @ map Issue (drop (start_at + P) records)
        = map Issue (drop start_at records)"
      by (metis add.commute append_take_drop_id drop_drop map_append)
    ultimately show ?thesis
      using False len
      by (subst library_loop.simps) (simp add: simulated_client_def)
  qed
qed

lemma dict_get_issues_total:
  "dict_get [(ascii ''issues'', a), (ascii ''total'', b)] (ascii ''issues'') d = a"
  "dict_get [(ascii ''issues'', a), (ascii ''total'', b)] (ascii ''total'') d = b"
  by (simp_all add: dict_get_def)

lemma api_loop_simulated:
  assumes "1 \<le> P" and "start_at \<le> length records"
  shows "api_loop (simulated_server records) P call start_at all_issues =
           Some (Done (all_issues @ drop start_at records))"
  using assms(2)
proof (induction "length records - start_at" arbitrary: call start_at all_issues
    rule: less_induct)
  case less
  let ?page = "take P (drop start_at records)"
  show ?case
  proof (cases "length records \<le> start_at + length ?page")
    case True
    then have "?page = drop start_at records" by (simp add: min_def split: if_splits)
    with True show ?thesis
      by (subst api_loop.simps)
         (simp add: simulated_server_def dict_get_issues_total py_iter_def py_ge_def)
  next
    case False
    with assms(1) have len: "length ?page = P" and lt: "start_at + P < length records"
      by (auto simp: min_def split: if_splits)
    with assms have "length records - (start_at + P) < length records - start_at" by linarith
    from less(1) [OF this] lt
    have "api_loop (simulated_server records) P (Suc call) (start_at + P) (all_issues @ ?page)
          = Some (Done ((all_issues @ ?page) @ drop (start_at + P) records))" by simp
    moreover have "?page @ drop (start_at + P) records = drop start_at records"
      by (metis add.commute append_take_drop_id drop_drop)
    ultimately show ?thesis
      using False len
      by (subst api_loop.simps)
         (simp add: simulated_server_def dict_get_issues_total py_iter_def py_ge_def)
  qed
qed

text \<open>
  C1. For a source that holds a list of records and serves the page asked for, and for
  every page size of at least 1, each of the two fetch paths returns exactly the records
  of the source, in their order, each once; so do the two functions with the page size 100
  of the source. Page sizes above the number of records and page size 1 are included.
\<close>

theorem pagination_complete:
  assumes "1 \<le> P"
  shows "fetch_via_library_sized P (Connected (simulated_client records)) = Some (Returns records)
       \<and> fetch_via_api_sized P (simulated_server records) = Some (Returns records)
       \<and> fetch_via_library (Connected (simulated_client records)) = Some (Returns records)
       \<and> fetch_via_api (simulated_server records) = Some (Returns records)"
proof -
  have m: "map raw (map Issue records) = records" by (simp add: comp_def)
  have "(1::nat) \<le> 100" by simp
  from library_loop_simulated [OF assms, of records 0 0 "[]"]
    api_loop_simulated [OF assms, of 0 records 0 "[]"]
    library_loop_simulated [OF this, of records 0 0 "[]"]
    api_loop_simulated [OF this, of 0 records 0 "[]"] m
  show ?thesis
    by (simp add: fetch_via_library_sized_def fetch_via_api_sized_def fetch_via_library_def
        fetch_via_api_def)
qed

theorem pagination_complete_witness:
  "fetch_via_library_sized 1 (Connected (simulated_client [PInt 1, PInt 2, PInt 3]))
     = Some (Returns [PInt 1, PInt 2, PInt 3])
   \<and> fetch_via_api_sized 1 (simulated_server [PInt 1, PInt 2, PInt 3])
     = Some (Returns [PInt 1, PInt 2, PInt 3])
   \<and> fetch_via_library_sized 5 (Connected (simulated_client [PInt 1, PInt 2, PInt 3]))
     = Some (Returns [PInt 1, PInt 2, PInt 3])
   \<and> fetch_via_api_sized 5 (simulated_server [PInt 1, PInt 2, PInt 3])
     = Some (Returns [PInt 1, PInt 2, PInt 3])"
  using pagination_complete [of 1 "[PInt 1, PInt 2, PInt 3]"]
    pagination_complete [of 5 "[PInt 1, PInt 2, PInt 3]"]
  by simp


section \<open>The runs of the loops\<close>

lemma library_loop_continue:
  "library_step (search call start_at P) P = Some issues \<Longrightarrow>
   library_loop search P call start_at all_issues =
     library_loop search P (Suc call) (start_at + length issues) (all_issues @ issues)"
  by (subst library_loop.simps)
     (auto simp: library_step_def split: search_result.splits if_splits)

lemma library_loop_stop:
  "library_step (search call start_at P) P = None \<Longrightarrow>
   library_loop search P call start_at all_issues =
     Some (case search call start_at P of
             SearchRaises \<Rightarrow> Raised TransportError
           | SearchReturns issues \<Rightarrow> Done (all_issues @ issues))"
  by (subst library_loop.simps)
     (auto simp: library_step_def split: search_result.splits if_splits)

lemma library_loop_state:
  "library_state search P k = Some (start_at, all_issues) \<Longrightarrow>
   library_loop search P 0 0 [] = library_loop search P k start_at all_issues"
proof (induction k arbitrary: start_at all_issues)
  case 0
  then show ?case by simp
next
  case (Suc k)
  then obtain s a issues where st: "library_state search P k = Some (s, a)"
    and step: "library_step (search k s P) P = Some issues"
    and eq: "start_at = s + length issues" "all_issues = a @ issues"
    by (auto split: option.splits)
  from Suc.IH [OF st]
    library_loop_continue [where search = search and call = k and start_at = s and P = P
      and issues = issues and all_issues = a] step eq
  show ?case by simp
qed

lemma library_loop_returns_stops:
  assumes "library_loop search P call start_at all_issues = Some y"
  shows "library_state search P call = Some (start_at, all_issues) \<longrightarrow>
   (\<exists>k s a. library_state search P k = Some (s, a) \<and> library_step (search k s P) P = None)"
proof (rule library_loop.raw_induct
    [where P = "\<lambda>search P call start_at all_issues y.
       library_state search P call = Some (start_at, all_issues) \<longrightarrow>
       (\<exists>k s a. library_state search P k = Some (s, a) \<and> library_step (search k s P) P = None)",
     OF _ assms], goal_cases)
  case (1 f search P call start_at all_issues y)
  show ?case
  proof
    assume st: "library_state search P call = Some (start_at, all_issues)"
    show "\<exists>k s a. library_state search P k = Some (s, a) \<and> library_step (search k s P) P = None"
    proof (cases "library_step (search call start_at P) P")
      case None
      with st show ?thesis by blast
    next
      case (Some issues)
      with 1(2) have "f search P (Suc call) (start_at + length issues) (all_issues @ issues) = Some y"
        by (auto simp: library_step_def split: search_result.splits if_splits)
      moreover from Some st
      have "library_state search P (Suc call) = Some (start_at + length issues, all_issues @ issues)"
        by simp
      ultimately show ?thesis using 1(1) by blast
    qed
  qed
qed


lemma api_loop_continue:
  "api_step (get call start_at P) start_at = Some issues \<Longrightarrow>
   api_loop get P call start_at all_issues =
     api_loop get P (Suc call) (start_at + length issues) (all_issues @ issues)"
  by (subst api_loop.simps)
     (auto simp: api_step_def split: http_response.splits option.splits pyval.splits
        sum.splits if_splits bool.splits)

lemma api_loop_stop:
  "api_step (get call start_at P) start_at = None \<Longrightarrow>
   \<exists>r. api_loop get P call start_at all_issues = Some r"
  by (subst api_loop.simps)
     (auto simp: api_step_def split: http_response.splits option.splits pyval.splits
        sum.splits if_splits bool.splits)

lemma api_loop_state:
  "api_state get P k = Some (start_at, all_issues) \<Longrightarrow>
   api_loop get P 0 0 [] = api_loop get P k start_at all_issues"
proof (induction k arbitrary: start_at all_issues)
  case 0
  then show ?case by simp
next
  case (Suc k)
  then obtain s a issues where st: "api_state get P k = Some (s, a)"
    and step: "api_step (get k s P) s = Some issues"
    and eq: "start_at = s + length issues" "all_issues = a @ issues"
    by (auto split: option.splits)
  from Suc.IH [OF st]
    api_loop_continue [where get = get and call = k and start_at = s and P = P
      and issues = issues and all_issues = a] step eq
  show ?case by simp
qed

lemma api_loop_returns_stops:
  assumes "api_loop get P call start_at all_issues = Some y"
  shows "api_state get P call = Some (start_at, all_issues) \<longrightarrow>
   (\<exists>k s a. api_state get P k = Some (s, a) \<and> api_step (get k s P) s = None)"
proof (rule api_loop.raw_induct
    [where P = "\<lambda>get P call start_at all_issues y.
       api_state get P call = Some (start_at, all_issues) \<longrightarrow>
       (\<exists>k s a. api_state get P k = Some (s, a) \<and> api_step (get k s P) s = None)",
     OF _ assms], goal_cases)
  case (1 f get P call start_at all_issues y)
  show ?case
  proof
    assume st: "api_state get P call = Some (start_at, all_issues)"
    show "\<exists>k s a. api_state get P k = Some (s, a) \<and> api_step (get k s P) s = None"
    proof (cases "api_step (get call start_at P) start_at")
      case None
      with st show ?thesis by blast
    next
      case (Some issues)
      with 1(2) have "f get P (Suc call) (start_at + length issues) (all_issues @ issues) = Some y"
        by (auto simp: api_step_def split: http_response.splits option.splits pyval.splits
            sum.splits if_splits bool.splits)
      moreover from Some st
      have "api_state get P (Suc call) = Some (start_at + length issues, all_issues @ issues)"
        by simp
      ultimately show ?thesis using 1(1) by blast
    qed
  qed
qed

lemma library_loop_iff:
  "library_loop search P 0 0 [] \<noteq> None \<longleftrightarrow>
   (\<exists>k s a. library_state search P k = Some (s, a) \<and> library_step (search k s P) P = None)"
proof
  assume "library_loop search P 0 0 [] \<noteq> None"
  then obtain y where "library_loop search P 0 0 [] = Some y" by blast
  from library_loop_returns_stops [OF this] show
    "\<exists>k s a. library_state search P k = Some (s, a) \<and> library_step (search k s P) P = None"
    by simp
next
  assume "\<exists>k s a. library_state search P k = Some (s, a) \<and> library_step (search k s P) P = None"
  then obtain k s a where st: "library_state search P k = Some (s, a)"
    and stop: "library_step (search k s P) P = None" by blast
  from library_loop_state [OF st]
    library_loop_stop [where search = search and call = k and start_at = s and P = P
      and all_issues = a] stop
  show "library_loop search P 0 0 [] \<noteq> None" by simp
qed

lemma api_loop_iff:
  "api_loop get P 0 0 [] \<noteq> None \<longleftrightarrow>
   (\<exists>k s a. api_state get P k = Some (s, a) \<and> api_step (get k s P) s = None)"
proof
  assume "api_loop get P 0 0 [] \<noteq> None"
  then obtain y where "api_loop get P 0 0 [] = Some y" by blast
  from api_loop_returns_stops [OF this] show
    "\<exists>k s a. api_state get P k = Some (s, a) \<and> api_step (get k s P) s = None"
    by simp
next
  assume "\<exists>k s a. api_state get P k = Some (s, a) \<and> api_step (get k s P) s = None"
  then obtain k s a where st: "api_state get P k = Some (s, a)"
    and stop: "api_step (get k s P) s = None" by blast
  from api_loop_state [OF st]
    api_loop_stop [where get = get and call = k and start_at = s and P = P
      and all_issues = a] stop
  show "api_loop get P 0 0 [] \<noteq> None" by auto
qed

lemma endless_step: "library_step (endless_client k s P) P \<noteq> None"
  by (simp add: endless_client_def library_step_def)

lemma library_endless: "library_loop endless_client P 0 0 [] = None"
  using library_loop_iff [of endless_client P] endless_step by blast

lemma stuck_state: "api_state stuck_server P k = Some (0, [])"
  by (induction k)
     (simp_all add: stuck_server_def api_step_def dict_get_issues_total py_iter_def py_ge_def)

lemma stuck_step: "api_step (stuck_server k 0 P) 0 \<noteq> None"
  by (simp add: stuck_server_def api_step_def dict_get_issues_total py_iter_def py_ge_def)

lemma api_stuck: "api_loop stuck_server P 0 0 [] = None"
proof -
  have "\<not> (\<exists>k s a. api_state stuck_server P k = Some (s, a) \<and> api_step (stuck_server k s P) s = None)"
    using stuck_step by (auto simp: stuck_state)
  with api_loop_iff [of stuck_server P] show ?thesis by blast
qed

text \<open>
  C7, as stated, fails: against a client that returns a full page at every call the
  library path never returns, and against a server that reports one record and serves
  empty pages the REST path never returns.
\<close>

theorem loops_never_return:
  "fetch_via_library (Connected endless_client) = None \<and> fetch_via_api stuck_server = None"
  by (simp add: fetch_via_library_def fetch_via_library_sized_def fetch_via_api_def
      fetch_via_api_sized_def library_endless api_stuck)

lemma library_step_None_iff:
  "library_step res P = None \<longleftrightarrow>
     res = SearchRaises \<or> (\<exists>issues. res = SearchReturns issues \<and> length issues < P)"
  by (auto simp: library_step_def split: search_result.splits)

lemma api_step_total:
  assumes "py_iter (dict_get data (ascii ''issues'') (PList [])) = Inr issues"
    and "dict_get data (ascii ''total'') (PInt 0) = PInt t"
  shows "api_step (Response 200 (Some (PDict data))) s = None \<longleftrightarrow> t \<le> int (s + length issues)"
  using assms by (auto simp: api_step_def py_ge_def split: bool.splits)

lemma fetch_via_library_sized_None:
  "fetch_via_library_sized P (Connected search) = None \<longleftrightarrow> library_loop search P 0 0 [] = None"
  by (simp add: fetch_via_library_sized_def split: option.split loop_result.split)

lemma fetch_via_api_sized_None:
  "fetch_via_api_sized P get = None \<longleftrightarrow> api_loop get P 0 0 [] = None"
  by (simp add: fetch_via_api_sized_def split: option.split loop_result.split)

text \<open>
  C7, as amended. The library path returns exactly when its run reaches a call that
  raises or returns fewer records than requested; the REST path returns exactly when its
  run reaches a call that fails or that brings the count of records to the total the
  server reports. Against a source that holds a list of records and serves the page asked
  for, with a page size of at least 1, both return.
\<close>

theorem loops_terminate_iff:
  "(fetch_via_library_sized P (Connected search) \<noteq> None \<longleftrightarrow>
      (\<exists>k s a. library_state search P k = Some (s, a) \<and> library_step (search k s P) P = None))
   \<and> (library_step res P = None \<longleftrightarrow>
        res = SearchRaises \<or> (\<exists>issues. res = SearchReturns issues \<and> length issues < P))
   \<and> (fetch_via_api_sized P get \<noteq> None \<longleftrightarrow>
        (\<exists>k s a. api_state get P k = Some (s, a) \<and> api_step (get k s P) s = None))
   \<and> (py_iter (dict_get data (ascii ''issues'') (PList [])) = Inr issues
        \<and> dict_get data (ascii ''total'') (PInt 0) = PInt t \<longrightarrow>
        (api_step (Response 200 (Some (PDict data))) start_at = None
           \<longleftrightarrow> t \<le> int (start_at + length issues)))
   \<and> (1 \<le> P \<longrightarrow>
        fetch_via_library_sized P (Connected (simulated_client records)) \<noteq> None
        \<and> fetch_via_api_sized P (simulated_server records) \<noteq> None)"
proof -
  have sim: "1 \<le> P \<longrightarrow>
        fetch_via_library_sized P (Connected (simulated_client records)) \<noteq> None
        \<and> fetch_via_api_sized P (simulated_server records) \<noteq> None"
    using library_loop_simulated [of P records 0 0 "[]"] api_loop_simulated [of P 0 records 0 "[]"]
    by (simp add: fetch_via_library_sized_None fetch_via_api_sized_None)
  have tot: "py_iter (dict_get data (ascii ''issues'') (PList [])) = Inr issues
        \<and> dict_get data (ascii ''total'') (PInt 0) = PInt t \<longrightarrow>
        (api_step (Response 200 (Some (PDict data))) start_at = None
           \<longleftrightarrow> t \<le> int (start_at + length issues))"
    using api_step_total [of data issues t start_at] by blast
  from library_loop_iff [of search P] api_loop_iff [of get P] library_step_None_iff [of res P]
    sim tot
  show ?thesis
    unfolding fetch_via_library_sized_None fetch_via_api_sized_None by blast
qed

theorem loops_terminate_iff_witness:
  "library_state (simulated_client [PInt 1, PInt 2, PInt 3]) 2 (Suc 0)
     = Some (2, [Issue (PInt 1), Issue (PInt 2)])
   \<and> library_step (simulated_client [PInt 1, PInt 2, PInt 3] (Suc 0) 2 2) 2 = None
   \<and> fetch_via_library_sized 2 (Connected (simulated_client [PInt 1, PInt 2, PInt 3])) \<noteq> None
   \<and> fetch_via_api_sized 2 (simulated_server [PInt 1, PInt 2, PInt 3]) \<noteq> None"
proof -
  have st: "library_state (simulated_client [PInt 1, PInt 2, PInt 3]) 2 (Suc 0)
     = Some (2, [Issue (PInt 1), Issue (PInt 2)])"
    by (simp add: simulated_client_def library_step_def)
  have stop: "library_step (simulated_client [PInt 1, PInt 2, PInt 3] (Suc 0) 2 2) 2 = None"
    by (simp add: simulated_client_def library_step_def)
  note T = loops_terminate_iff [where P = 2
      and search = "simulated_client [PInt 1, PInt 2, PInt 3]"
      and records = "[PInt 1, PInt 2, PInt 3]" and res = SearchRaises
      and get = "simulated_server [PInt 1, PInt 2, PInt 3]" and data = "[]"
      and issues = "[]" and t = 0 and start_at = 0]
  from st stop have "\<exists>k s a.
      library_state (simulated_client [PInt 1, PInt 2, PInt 3]) 2 k = Some (s, a)
      \<and> library_step (simulated_client [PInt 1, PInt 2, PInt 3] k s 2) 2 = None"
    by blast
  with T have lib: "fetch_via_library_sized 2 (Connected (simulated_client [PInt 1, PInt 2, PInt 3]))
      \<noteq> None"
    by blast
  have "(1::nat) \<le> 2" by simp
  with T have api: "fetch_via_api_sized 2 (simulated_server [PInt 1, PInt 2, PInt 3]) \<noteq> None"
    by blast
  from st stop lib api show ?thesis by blast
qed


section \<open>Transport failures\<close>

lemma library_loop_raises:
  assumes "library_state search P k = Some (s, a)" and "search k s P = SearchRaises"
  shows "library_loop search P 0 0 [] = Some (Raised TransportError)"
proof -
  from assms(2) have "library_step (search k s P) P = None" by (simp add: library_step_def)
  from library_loop_stop [where search = search and call = k and start_at = s and P = P
      and all_issues = a] this assms(2)
  have "library_loop search P k s a = Some (Raised TransportError)" by simp
  with library_loop_state [OF assms(1)] show ?thesis by simp
qed

lemma api_loop_fails:
  assumes "api_state get P k = Some (s, a)" and "transport_failure (get k s P)"
  shows "api_loop get P 0 0 [] = Some (Raised TransportError)
       \<or> api_loop get P 0 0 [] = Some (Raised ValueError)
       \<or> api_loop get P 0 0 [] = Some (Exited 1)"
proof -
  from assms(2) have "api_loop get P k s a = Some (Raised TransportError)
       \<or> api_loop get P k s a = Some (Raised ValueError)
       \<or> api_loop get P k s a = Some (Exited 1)"
    by (subst (1 2 3) api_loop.simps)
       (auto simp: transport_failure_def split: http_response.splits)
  with api_loop_state [OF assms(1)] show ?thesis by simp
qed

lemma fetch_via_library_raises:
  assumes "library_state search P k = Some (s, a)" and "search k s P = SearchRaises"
  shows "fetch_via_library_sized P (Connected search) = Some (Exit 1)"
  using library_loop_raises [OF assms] by (simp add: fetch_via_library_sized_def)

lemma fetch_via_api_fails:
  assumes "api_state get P k = Some (s, a)" and "transport_failure (get k s P)"
  shows "fetch_via_api_sized P get = Some (Exit 1)"
  using api_loop_fails [OF assms] by (auto simp: fetch_via_api_sized_def)

text \<open>
  C6. When the connection cannot be made, or the run of a fetch loop reaches a call that
  raises, or on the REST path a call whose answer has a status other than 200 or a body
  that is not JSON, the fetch ends the process with exit status 1, whatever it had
  collected: it returns no list. This holds of the loops at every page size and of
  \<open>fetch_via_library\<close> and \<open>fetch_via_api\<close> as the source has them, and \<open>main\<close> then
  ends with exit status 1 as well: it normalizes no issue and prints no summary.
\<close>

theorem transport_failure_fatal:
  "fetch_via_library_sized P ConnectRaises = Some (Exit 1)
   \<and> fetch_via_library ConnectRaises = Some (Exit 1)
   \<and> main LibraryA ConnectRaises get = Some (Exit 1)
   \<and> (library_state search P k = Some (s, a) \<and> search k s P = SearchRaises \<longrightarrow>
        fetch_via_library_sized P (Connected search) = Some (Exit 1))
   \<and> (library_state search 100 k = Some (s, a) \<and> search k s 100 = SearchRaises \<longrightarrow>
        fetch_via_library (Connected search) = Some (Exit 1)
        \<and> main LibraryA (Connected search) get = Some (Exit 1))
   \<and> (api_state get P k = Some (s', a') \<and> transport_failure (get k s' P) \<longrightarrow>
        fetch_via_api_sized P get = Some (Exit 1))
   \<and> (api_state get 100 k = Some (s', a') \<and> transport_failure (get k s' 100) \<longrightarrow>
        fetch_via_api get = Some (Exit 1) \<and> main RestB session get = Some (Exit 1))
   \<and> (transport_failure res \<longleftrightarrow>
        res = RequestRaises
        \<or> (\<exists>status_code body. res = Response status_code body
              \<and> (status_code \<noteq> 200 \<or> body = None)))"
proof -
  have c0: "fetch_via_library_sized P ConnectRaises = Some (Exit 1)"
    "fetch_via_library ConnectRaises = Some (Exit 1)"
    "main LibraryA ConnectRaises get = Some (Exit 1)"
    by (simp_all add: main_def fetch_via_library_def fetch_via_library_sized_def)
  have l1: "library_state search P k = Some (s, a) \<and> search k s P = SearchRaises \<longrightarrow>
        fetch_via_library_sized P (Connected search) = Some (Exit 1)"
    using fetch_via_library_raises [of search P k s a] by blast
  have l2: "library_state search 100 k = Some (s, a) \<and> search k s 100 = SearchRaises \<longrightarrow>
        fetch_via_library (Connected search) = Some (Exit 1)
        \<and> main LibraryA (Connected search) get = Some (Exit 1)"
    using fetch_via_library_raises [of search 100 k s a]
    by (simp add: main_def fetch_via_library_def)
  have a1: "api_state get P k = Some (s', a') \<and> transport_failure (get k s' P) \<longrightarrow>
        fetch_via_api_sized P get = Some (Exit 1)"
    using fetch_via_api_fails [of get P k s' a'] by blast
  have a2: "api_state get 100 k = Some (s', a') \<and> transport_failure (get k s' 100) \<longrightarrow>
        fetch_via_api get = Some (Exit 1) \<and> main RestB session get = Some (Exit 1)"
    using fetch_via_api_fails [of get 100 k s' a']
    by (simp add: main_def fetch_via_api_def)
  have t: "transport_failure res \<longleftrightarrow>
        res = RequestRaises
        \<or> (\<exists>status_code body. res = Response status_code body
              \<and> (status_code \<noteq> 200 \<or> body = None))"
    by (cases res) (simp_all add: transport_failure_def)
  from c0 l1 l2 a1 a2 t show ?thesis by blast
qed

theorem transport_failure_fatal_witness:
  "library_state flaky_client 100 (Suc 0) = Some (100, replicate 100 (Issue (PInt 1)))
   \<and> flaky_client (Suc 0) 100 100 = SearchRaises
   \<and> main LibraryA (Connected flaky_client) failing_server = Some (Exit 1)
   \<and> api_state failing_server 100 (Suc 0) = Some (100, replicate 100 (PInt 1))
   \<and> failing_server (Suc 0) 100 100 = Response 500 None
   \<and> main RestB ConnectRaises failing_server = Some (Exit 1)
   \<and> api_state garbled_server 100 (Suc 0) = Some (100, replicate 100 (PInt 1))
   \<and> garbled_server (Suc 0) 100 100 = Response 200 None
   \<and> main RestB ConnectRaises garbled_server = Some (Exit 1)"
proof -
  have st: "library_state flaky_client 100 (Suc 0) = Some (100, replicate 100 (Issue (PInt 1)))"
    by (simp add: flaky_client_def library_step_def)
  have r: "flaky_client (Suc 0) 100 100 = SearchRaises" by (simp add: flaky_client_def)
  have st1: "api_state failing_server 100 (Suc 0) = Some (100, replicate 100 (PInt 1))"
    by (simp add: failing_server_def api_step_def dict_get_issues_total py_iter_def py_ge_def)
  have r1: "failing_server (Suc 0) 100 100 = Response 500 None"
    by (simp add: failing_server_def)
  have f1: "transport_failure (failing_server (Suc 0) 100 100)"
    by (simp add: r1 transport_failure_def)
  have st2: "api_state garbled_server 100 (Suc 0) = Some (100, replicate 100 (PInt 1))"
    by (simp add: garbled_server_def api_step_def dict_get_issues_total py_iter_def py_ge_def)
  have r2: "garbled_server (Suc 0) 100 100 = Response 200 None"
    by (simp add: garbled_server_def)
  have f2: "transport_failure (garbled_server (Suc 0) 100 100)"
    by (simp add: r2 transport_failure_def)
  note T1 = transport_failure_fatal [where P = 100 and search = flaky_client and k = "Suc 0"
      and s = 100 and a = "replicate 100 (Issue (PInt 1))" and get = failing_server
      and s' = 100 and a' = "replicate 100 (PInt 1)" and session = ConnectRaises
      and res = RequestRaises]
  note T2 = transport_failure_fatal [where P = 100 and search = flaky_client and k = "Suc 0"
      and s = 100 and a = "replicate 100 (Issue (PInt 1))" and get = garbled_server
      and s' = 100 and a' = "replicate 100 (PInt 1)" and session = ConnectRaises
      and res = RequestRaises]
  from T1 st r have m0: "main LibraryA (Connected flaky_client) failing_server = Some (Exit 1)"
    by blast
  from T1 st1 f1 have m1: "main RestB ConnectRaises failing_server = Some (Exit 1)"
    by blast
  from T2 st2 f2 have m2: "main RestB ConnectRaises garbled_server = Some (Exit 1)"
    by blast
  from st r m0 st1 r1 m1 st2 r2 m2 show ?thesis by blast
qed

section \<open>The summary\<close>

lemma fetch_via_api_simulated: "fetch_via_api (simulated_server records) = Some (Returns records)"
  using api_loop_simulated [of 100 0 records 0 "[]"]
  by (simp add: fetch_via_api_def fetch_via_api_sized_def)

lemma fetch_via_library_simulated:
  "fetch_via_library (Connected (simulated_client records)) = Some (Returns records)"
  using library_loop_simulated [of 100 records 0 0 "[]"]
  by (simp add: fetch_via_library_def fetch_via_library_sized_def comp_def)

text \<open>
  What \<open>main\<close> prints when the fetch returns: the number of raw issues, and the number of
  records that \<open>process_issues\<close> returned, which is short of the first by the number of
  issues whose normalization raised and is at most the number of export rows.
\<close>

lemma summary_counts:
  "(case fetch_method of LibraryA \<Rightarrow> fetch_via_library session | RestB \<Rightarrow> fetch_via_api get)
      = Some (Returns issues) \<longrightarrow>
   main fetch_method session get =
     Some (Returns \<lparr>issue_count = length issues, row_count = length (process_issues issues)\<rparr>)
   \<and> length (process_issues issues) + length (process_issues_printed issues) = length issues
   \<and> length (process_issues issues) \<le> length (format_dataframe (process_issues issues))"
  using length_process_issues [of issues] length_format_dataframe_ge [of "process_issues issues"]
  by (simp add: main_def)

text \<open>
  C10 fails on the code. For one raw issue with two comments, fetched on either path, the
  summary of \<open>main\<close> counts one issue and, under the label of the rows produced, one row;
  row expansion produces two export rows for it. The second count is the number of
  normalized records, not the number of export rows.
\<close>

theorem row_count_is_not_export_rows:
  "main RestB ConnectRaises
     (simulated_server [commented_issue (PStr (ascii ''A-1''))
                          [PDict [(ascii ''body'', PStr (ascii ''hi''))], PInt 3]])
     = Some (Returns \<lparr>issue_count = 1, row_count = 1\<rparr>)
   \<and> main LibraryA
       (Connected (simulated_client [commented_issue (PStr (ascii ''A-1''))
                          [PDict [(ascii ''body'', PStr (ascii ''hi''))], PInt 3]]))
       stuck_server
     = Some (Returns \<lparr>issue_count = 1, row_count = 1\<rparr>)
   \<and> length (format_dataframe (process_issues
         [commented_issue (PStr (ascii ''A-1''))
            [PDict [(ascii ''body'', PStr (ascii ''hi''))], PInt 3]])) = 2"
  by (simp add: main_def fetch_via_api_simulated fetch_via_library_simulated
      process_issues_concat normalized_def normalize_commented_issue format_dataframe_concat
      issue_rows_def)

end
